theory Spec2Isabelle
  imports Main "HOL-Library.AList"
begin

section \<open>JavaScript values\<close>

text \<open>
  The values that \<^verbatim>\<open>JSON.parse\<close> produces. An object is the list of its own
  properties; a number is taken to be an integer (the only numbers the program writes
  or tests are timestamps, limits and zero).
\<close>

datatype json =
    JNull
  | JBool bool
  | JNum int
  | JStr string
  | JArr "json list"
  | JObj "(string \<times> json) list"

text \<open>
  The test \<^verbatim>\<open>if (x)\<close>. \<open>None\<close> is \<^verbatim>\<open>undefined\<close>.
\<close>

fun truthy :: "json option \<Rightarrow> bool" where
  "truthy None = False"
| "truthy (Some JNull) = False"
| "truthy (Some (JBool b)) = b"
| "truthy (Some (JNum n)) = (n \<noteq> 0)"
| "truthy (Some (JStr s)) = (s \<noteq> [])"
| "truthy (Some (JArr xs)) = True"
| "truthy (Some (JObj kvs)) = True"

text \<open>
  The property read \<^verbatim>\<open>x.k\<close> for a key \<open>k\<close> that no prototype defines (the
  program reads \<^verbatim>\<open>session\<close>). Reading from \<^verbatim>\<open>null\<close> raises a TypeError, here
  the left injection with the message of the error.
\<close>

fun property :: "json \<Rightarrow> string \<Rightarrow> string + json option" where
  "property JNull k =
     Inl (''Cannot read properties of null (reading '' @ [CHR 0x27] @ k @ [CHR 0x27] @ '')'')"
| "property (JObj kvs) k = Inr (map_of kvs k)"
| "property v k = Inr None"

fun startsWith :: "string \<Rightarrow> string \<Rightarrow> bool" where
  "startsWith s [] = True"
| "startsWith [] (p # ps) = False"
| "startsWith (c # cs) (p # ps) = (c = p \<and> startsWith cs ps)"

text \<open>\<^verbatim>\<open>s.includes(p)\<close> and \<^verbatim>\<open>s.endsWith(p)\<close>.\<close>

fun includes_str :: "string \<Rightarrow> string \<Rightarrow> bool" where
  "includes_str [] p = (p = [])"
| "includes_str (c # cs) p = (startsWith (c # cs) p \<or> includes_str cs p)"

definition endsWith :: "string \<Rightarrow> string \<Rightarrow> bool" where
  "endsWith s p = (length p \<le> length s \<and> drop (length s - length p) s = p)"

section \<open>The state of the process and of the sessions directory\<close>

text \<open>
  A path of the file system is absolute and normalised: the list of its segments, from
  the root. \<^verbatim>\<open>path.join(dir, name)\<close>, for a directory \<open>dir\<close> given by such a path,
  normalises \<^verbatim>\<open>dir + '/' + name\<close>: the segments of \<open>name\<close> are taken one by one,
  an empty segment and \<^verbatim>\<open>.\<close> are dropped, and \<^verbatim>\<open>..\<close> drops the segment before it
  (at the root it is dropped itself). The separator is \<^verbatim>\<open>/\<close> (POSIX).
\<close>

type_synonym path = "string list"

fun splitOn :: "char \<Rightarrow> string \<Rightarrow> string list" where
  "splitOn sep [] = [[]]"
| "splitOn sep (c # cs) =
     (if c = sep then [] # splitOn sep cs
      else (case splitOn sep cs of [] \<Rightarrow> [[c]] | s # ss \<Rightarrow> (c # s) # ss))"

definition normalizeSegment :: "path \<Rightarrow> string \<Rightarrow> path" where
  "normalizeSegment p seg =
     (if seg = [] \<or> seg = ''.'' then p
      else if seg = ''..'' then butlast p
      else p @ [seg])"

definition path_join :: "path \<Rightarrow> string \<Rightarrow> path" where
  "path_join dir name = foldl normalizeSegment dir (splitOn (CHR ''/'') name)"

text \<open>The text of a path, as it appears in messages.\<close>

definition pathText :: "path \<Rightarrow> string" where
  "pathText p = (if p = [] then ''/'' else concat (map (\<lambda>seg. CHR ''/'' # seg) p))"

text \<open>
  The files, each under its path, in the order in which \<^verbatim>\<open>fs.readdirSync\<close> lists
  them. A file is represented by what
  \<^verbatim>\<open>JSON.parse(fs.readFileSync(file, 'utf8'))\<close> makes of it: the parsed value, or
  an error (the entry cannot be read, as a directory cannot, or is not JSON) with its
  message. Writing \<^verbatim>\<open>JSON.stringify(v)\<close> stores the text that parses to \<open>v\<close>.
\<close>

datatype content = Unreadable string | Parsed json

type_synonym directory = "(path \<times> content) list"

text \<open>
  A client object. \<open>cid\<close> is the identity of the object (two \<^verbatim>\<open>new\<close>
  expressions give two objects); \<open>token\<close> is the value its \<^verbatim>\<open>StringSession\<close>
  was built from, or, after a login, what \<^verbatim>\<open>client.session.save()\<close> returns.
\<close>

record client =
  cid :: nat
  token :: json
  clientApiId :: int
  clientApiHash :: string
  sessionOnly :: bool

datatype level = Debug | Info | Warn | Err

text \<open>
  A text built by a template literal (a log message, the text of a response) is the
  list of its pieces: the literal text and the interpolated strings, numbers, booleans,
  values of any type (\<open>None\<close> is \<^verbatim>\<open>undefined\<close>), JSON texts
  (\<^verbatim>\<open>JSON.stringify\<close>) and error messages (\<open>None\<close> when the error has no
  message). \<open>EngineMsg k\<close> is the message of the TypeError that the JavaScript engine
  raises when the member \<open>k\<close> of \<^verbatim>\<open>Object.prototype\<close> is used as an entry of the
  tool registry.
\<close>

datatype piece =
    Txt string
  | Num int
  | Flag bool
  | Val "json option"
  | Json json
  | Msg "string option"
  | EngineMsg string

text \<open>
  The calls that leave the process: to the remote backend through the client object,
  and the interactive login \<^verbatim>\<open>client.start\<close>, the only place where the operator
  is asked for a code or a password (its second argument is the value of
  \<^verbatim>\<open>attempts\<close> during the call).
\<close>

datatype call =
    Connect nat
  | IsUserAuthorized nat
  | Start nat nat
  | Remote nat string

text \<open>
  The state: the files; \<^verbatim>\<open>sessionsDir\<close>, the path of the sessions directory
  (\<^verbatim>\<open>config.sessionPath\<close>, fixed when the configuration module is loaded); the
  clients in memory; the number of client objects created so far; the log; the calls
  made so far. \<open>decoding\<close> belongs to the library and never changes: what
  \<^verbatim>\<open>new StringSession(s)\<close> does with an argument that has passed its check of the
  version (see \<open>newStringSession\<close> below), \<open>None\<close> when it accepts the argument and
  the message of the error when it throws.
\<close>

record world =
  files :: directory
  sessionsDir :: path
  decoding :: "json \<Rightarrow> string option"
  clientSessions :: "(string \<times> client) list"
  nextId :: nat
  logged :: "(level \<times> piece list) list"
  calls :: "call list"

definition logger :: "level \<Rightarrow> piece list \<Rightarrow> world \<Rightarrow> world" where
  "logger l m w = w\<lparr>logged := logged w @ [(l, m)]\<rparr>"

definition called :: "call \<Rightarrow> world \<Rightarrow> world" where
  "called c w = w\<lparr>calls := calls w @ [c]\<rparr>"

definition existsSync :: "directory \<Rightarrow> path \<Rightarrow> bool" where
  "existsSync fs f = (map_of fs f \<noteq> None)"

text \<open>\<^verbatim>\<open>fs.readdirSync(dir)\<close>: the names of the entries of the directory \<open>dir\<close>.\<close>

definition readdirSync :: "directory \<Rightarrow> path \<Rightarrow> string list" where
  "readdirSync fs dir = map last (filter (\<lambda>f. f \<noteq> [] \<and> butlast f = dir) (map fst fs))"

definition readJson :: "directory \<Rightarrow> path \<Rightarrow> string + json" where
  "readJson fs f =
     (case map_of fs f of
        None \<Rightarrow>
          Inl (''ENOENT: no such file or directory, open '' @ [CHR 0x27] @ pathText f @ [CHR 0x27])
      | Some (Unreadable m) \<Rightarrow> Inl m
      | Some (Parsed j) \<Rightarrow> Inr j)"

text \<open>The write is taken to succeed.\<close>

definition writeFileSync :: "path \<Rightarrow> json \<Rightarrow> world \<Rightarrow> world" where
  "writeFileSync f j w = w\<lparr>files := AList.update f (Parsed j) (files w)\<rparr>"

text \<open>\<^verbatim>\<open>path.join(sessionsDir, `${sessionId}.json`)\<close>.\<close>

definition sessionFilePath :: "path \<Rightarrow> string \<Rightarrow> path" where
  "sessionFilePath dir sessionId = path_join dir (sessionId @ ''.json'')"

text \<open>
  \<^verbatim>\<open>new StringSession(session)\<close> of the library, for an argument that is truthy:
  \<open>None\<close> when the object is built, the message of the error when the constructor
  throws. The constructor first compares \<^verbatim>\<open>session[0]\<close> with the version
  \<^verbatim>\<open>'1'\<close> and throws \<^verbatim>\<open>Not a valid string\<close> when they differ; it then calls
  \<^verbatim>\<open>session.slice(1)\<close>, which an object does not have, and decodes the rest.
\<close>

fun versionChar :: "json \<Rightarrow> json option" where
  "versionChar (JStr (c # cs)) = Some (JStr [c])"
| "versionChar (JArr (x # xs)) = Some x"
| "versionChar (JObj kvs) = map_of kvs ''0''"
| "versionChar v = None"

definition newStringSession :: "world \<Rightarrow> json \<Rightarrow> string option" where
  "newStringSession w session =
     (if versionChar session \<noteq> Some (JStr ''1'') then Some ''Not a valid string''
      else (case session of
              JObj kvs \<Rightarrow> Some ''session.slice is not a function''
            | _ \<Rightarrow> decoding w session))"

section \<open>Session records: load and save\<close>

text \<open>
  \<^verbatim>\<open>getClient\<close>, from \<^verbatim>\<open>const sessionFile\<close> to the end of the
  \<^verbatim>\<open>if (fs.existsSync(sessionFile))\<close> block: the result is the pair
  \<^verbatim>\<open>(stringSession, existingSession)\<close>, where \<open>stringSession\<close> is the value the
  \<^verbatim>\<open>StringSession\<close> was built from. \<^verbatim>\<open>existingSession = true\<close> stands after
  \<^verbatim>\<open>new StringSession(sessionData.session)\<close> in the \<^verbatim>\<open>try\<close> block, so an error
  of the constructor is caught and logged, and leaves no session.
\<close>

definition loadSession :: "world \<Rightarrow> string \<Rightarrow> (json \<times> bool) \<times> world" where
  "loadSession w sessionId =
     (let sessionFile = sessionFilePath (sessionsDir w) sessionId;
          fileExists = existsSync (files w) sessionFile;
          w1 = logger Info [Txt ''Session file path: '', Txt (pathText sessionFile)] w;
          w2 = logger Info [Txt ''Session file exists: '', Flag fileExists] w1
      in if fileExists then
           (let w3 = logger Debug [Txt ''Found existing session file for '', Txt sessionId] w2
            in case readJson (files w3) sessionFile of
                 Inl m \<Rightarrow>
                   ((JStr [], False), logger Err [Txt ''Error loading session file: '', Txt m] w3)
               | Inr sessionData \<Rightarrow>
                   (let w4 = logger Info [Txt ''Session file content found''] w3
                    in case property sessionData ''session'' of
                         Inl m \<Rightarrow>
                           ((JStr [], False),
                            logger Err [Txt ''Error loading session file: '', Txt m] w4)
                       | Inr None \<Rightarrow>
                           ((JStr [], False),
                            logger Warn [Txt ''Session file exists but has no valid session data for '',
                                         Txt sessionId] w4)
                       | Inr (Some t) \<Rightarrow>
                           if truthy (Some t) then
                             (case newStringSession w4 t of
                                Some m \<Rightarrow>
                                  ((JStr [], False),
                                   logger Err [Txt ''Error loading session file: '', Txt m] w4)
                              | None \<Rightarrow>
                                  ((t, True),
                                   logger Debug [Txt ''Loaded session data for '', Txt sessionId] w4))
                           else
                             ((JStr [], False),
                              logger Warn [Txt ''Session file exists but has no valid session data for '',
                                           Txt sessionId] w4)))
         else ((JStr [], False), w2))"

text \<open>
  The write after a successful login:
  \<^verbatim>\<open>fs.writeFileSync(sessionFile, JSON.stringify({ session: sessionString, timestamp: Date.now() }))\<close>.
\<close>

definition saveSession :: "string \<Rightarrow> string \<Rightarrow> int \<Rightarrow> world \<Rightarrow> world" where
  "saveSession sessionId sessionString now w =
     writeFileSync (sessionFilePath (sessionsDir w) sessionId)
       (JObj [(''session'', JStr sessionString), (''timestamp'', JNum now)]) w"

section \<open>Configuration\<close>

text \<open>
  \<^verbatim>\<open>process.env\<close> as the configuration module reads it: \<open>API_ID\<close> is
  \<^verbatim>\<open>parseInt(process.env.API_ID)\<close> (\<open>None\<close> is \<^verbatim>\<open>NaN\<close>), \<open>API_HASH\<close> is
  \<^verbatim>\<open>process.env.API_HASH\<close> (\<open>None\<close> when the variable is not set).
\<close>

record processEnv =
  API_ID :: "int option"
  API_HASH :: "string option"

record config =
  apiId :: int
  apiHash :: string

text \<open>
  The configuration module with the defaults for existing sessions
  (\<^verbatim>\<open>hasExistingSessions\<close>): it is evaluated once, when the module is loaded, on the
  sessions directory \<open>sessionPath\<close> as it is then.
\<close>

definition loadConfig :: "processEnv \<Rightarrow> directory \<Rightarrow> path \<Rightarrow> config" where
  "loadConfig penv fs sessionPath =
     (let hasExistingSessions =
            (length (filter (\<lambda>file. endsWith file ''.json'') (readdirSync fs sessionPath)) > 0)
      in \<lparr>apiId =
            (case API_ID penv of
               Some n \<Rightarrow> if n \<noteq> 0 then n else (if hasExistingSessions then 1 else 0)
             | None \<Rightarrow> (if hasExistingSessions then 1 else 0)),
          apiHash =
            (case API_HASH penv of
               Some h \<Rightarrow>
                 if h \<noteq> [] then h
                 else (if hasExistingSessions then ''dummy_hash_for_existing_sessions'' else [])
             | None \<Rightarrow> (if hasExistingSessions then ''dummy_hash_for_existing_sessions'' else []))\<rparr>)"


section \<open>The world outside the process\<close>

text \<open>
  A promise of the library settles: it resolves with a value or rejects with an error,
  of which the program reads the message only (\<open>None\<close> when it has none).
\<close>

datatype 'a settled = Resolved 'a | Rejected "string option"

text \<open>
  What the backend and the operator answer during one call of \<^verbatim>\<open>getClient\<close>:
  how \<^verbatim>\<open>client.connect()\<close> and \<^verbatim>\<open>client.isUserAuthorized()\<close> settle, and how
  the successive calls of \<^verbatim>\<open>client.start\<close> settle, each resolving with the string
  that \<^verbatim>\<open>client.session.save()\<close> returns afterwards. The list is finite: a call
  of \<^verbatim>\<open>client.start\<close> beyond it never settles (the operator never answers), and
  neither does \<^verbatim>\<open>getClient\<close>. \<open>dateNow\<close> is \<^verbatim>\<open>Date.now()\<close>. The callbacks
  handed to \<^verbatim>\<open>client.start\<close> run inside the library; what they print is not part
  of the model.
\<close>

record env =
  connectResult :: "unit settled"
  authorizedResult :: "bool settled"
  starts :: "string settled list"
  dateNow :: int

section \<open>getClient\<close>

text \<open>
  The errors \<^verbatim>\<open>getClient\<close> raises, named after the kinds of the specification;
  \<open>errorMessage\<close> is the text of each in the source. \<open>Thrown\<close> is an error of
  the library that the program passes on.
\<close>

datatype error = MissingCredentials | ResumeFailed | AuthExhausted | Thrown "string option"

definition maxAttempts :: nat where
  "maxAttempts = 3"

fun errorMessage :: "error \<Rightarrow> string option" where
  "errorMessage MissingCredentials =
     Some ''Your API ID or Hash cannot be empty or undefined for creating a new session''"
| "errorMessage ResumeFailed =
     Some ''Cannot connect with existing session and no API credentials provided''"
| "errorMessage AuthExhausted =
     Some ''Failed to authenticate after 3 attempts. Check your credentials.''"
| "errorMessage (Thrown m) = m"

definition TelegramClient :: "nat \<Rightarrow> json \<Rightarrow> int \<Rightarrow> string \<Rightarrow> client" where
  "TelegramClient i s a h =
     \<lparr>cid = i, token = s, clientApiId = a, clientApiHash = h, sessionOnly = False\<rparr>"

definition SessionOnlyClient :: "nat \<Rightarrow> json \<Rightarrow> int \<Rightarrow> string \<Rightarrow> client" where
  "SessionOnlyClient i s a h =
     \<lparr>cid = i, token = s,
      clientApiId = (if a \<noteq> 0 then a else 1),
      clientApiHash = (if h \<noteq> [] then h else ''placeholder_hash_for_session_only''),
      sessionOnly = True\<rparr>"

text \<open>
  \<^verbatim>\<open>getClient\<close> up to its first \<^verbatim>\<open>await\<close>: the lookup in
  \<^verbatim>\<open>clientSessions\<close>, the session file, the check of the credentials and the
  construction of the client. This part runs without interruption. It returns the
  client found in memory, raises, or has created a client and goes on.
\<close>

datatype prologue = Returned client | Raised error | Created client bool

definition getClientPrologue ::
  "config \<Rightarrow> string \<Rightarrow> bool \<Rightarrow> world \<Rightarrow> prologue \<times> world" where
  "getClientPrologue cfg sessionId forceNew w =
     (let w0 = logger Info [Txt ''Client request for session '', Txt sessionId] w
      in case (if forceNew then None else map_of (clientSessions w0) sessionId) of
           Some c \<Rightarrow>
             (Returned c,
              logger Info [Txt ''Using existing session from memory for '', Txt sessionId] w0)
         | None \<Rightarrow>
             (case loadSession w0 sessionId of
                ((stringSession, existingSession), w1) \<Rightarrow>
                  (let w2 = logger Info [Txt ''Existing session found: '', Flag existingSession] w1;
                       w3 = logger Info [Txt ''Current API_ID and API_HASH: '', Num (apiId cfg),
                                         Txt '', '',
                                         Txt (if apiHash cfg \<noteq> [] then ''set'' else ''not set'')] w2
                   in if \<not> existingSession \<and> (apiId cfg = 0 \<or> apiHash cfg = []) then
                        (Raised MissingCredentials, w3)
                      else
                        (Created
                           (if existingSession then
                              SessionOnlyClient (nextId w3) stringSession 1 ''placeholder_hash''
                            else
                              TelegramClient (nextId w3) stringSession (apiId cfg) (apiHash cfg))
                           existingSession,
                         w3\<lparr>nextId := Suc (nextId w3)\<rparr>))))"

text \<open>
  The connection with an existing session (\<^verbatim>\<open>if (existingSession) { try { ... } catch
  ... }\<close>): the client is returned, an error is raised, or control falls through to the
  interactive login.
\<close>

datatype resumed = Connected client | ResumeRaised error | NotResumed

definition resumeCatch :: "config \<Rightarrow> string option \<Rightarrow> world \<Rightarrow> resumed \<times> world" where
  "resumeCatch cfg m w =
     (let w1 = logger Err [Txt ''Error connecting with existing session: '', Msg m] w
      in if apiId cfg = 0 \<or> apiHash cfg = [] then (ResumeRaised ResumeFailed, w1)
         else (NotResumed, w1))"

text \<open>
  The \<^verbatim>\<open>try\<close> block up to its first \<^verbatim>\<open>await\<close> (\<^verbatim>\<open>client.connect()\<close> has
  been called), and from there on.
\<close>

definition connectBegin :: "string \<Rightarrow> client \<Rightarrow> world \<Rightarrow> world" where
  "connectBegin sessionId c w =
     called (Connect (cid c))
       (logger Debug [Txt ''Connecting with existing session for '', Txt sessionId] w)"

definition connectSettled ::
  "config \<Rightarrow> env \<Rightarrow> string \<Rightarrow> client \<Rightarrow> world \<Rightarrow> resumed \<times> world" where
  "connectSettled cfg e sessionId c w =
     (case connectResult e of
        Rejected m \<Rightarrow> resumeCatch cfg m w
      | Resolved u \<Rightarrow>
          (let w2 = called (IsUserAuthorized (cid c)) w
           in case authorizedResult e of
                Rejected m \<Rightarrow> resumeCatch cfg m w2
              | Resolved True \<Rightarrow>
                  (let w3 = logger Info [Txt ''Successfully connected with existing session for '',
                                         Txt sessionId] w2
                   in (Connected c,
                       w3\<lparr>clientSessions := AList.update sessionId c (clientSessions w3)\<rparr>))
              | Resolved False \<Rightarrow>
                  (NotResumed,
                   logger Warn [Txt ''Session exists but not authorized for '', Txt sessionId,
                                Txt '', will try interactive login''] w2)))"

definition resumeSession ::
  "config \<Rightarrow> env \<Rightarrow> string \<Rightarrow> client \<Rightarrow> world \<Rightarrow> resumed \<times> world" where
  "resumeSession cfg e sessionId c w = connectSettled cfg e sessionId c (connectBegin sessionId c w)"

text \<open>\<^verbatim>\<open>error.message && error.message.includes(p)\<close>.\<close>

fun messageIncludes :: "string option \<Rightarrow> string \<Rightarrow> bool" where
  "messageIncludes None p = False"
| "messageIncludes (Some s) p = (s \<noteq> [] \<and> includes_str s p)"

text \<open>
  A round of the loop up to its \<^verbatim>\<open>await\<close>: \<^verbatim>\<open>attempts++\<close> (the argument is
  the new value), the line of the log, and the call of \<^verbatim>\<open>client.start\<close>.
\<close>

definition startRound :: "string \<Rightarrow> client \<Rightarrow> nat \<Rightarrow> world \<Rightarrow> world" where
  "startRound sessionId c attempts1 w =
     called (Start (cid c) attempts1)
       (logger Debug [Txt ''Starting client for session '', Txt sessionId,
                      Txt '' (attempt '', Num (int attempts1), Txt '')''] w)"

text \<open>
  The loop \<^verbatim>\<open>while (!authorized && attempts < maxAttempts)\<close> and the
  \<^verbatim>\<open>if (!authorized) throw\<close> after it. \<open>authLoop\<close> is the test of the loop and
  the round up to its \<^verbatim>\<open>await\<close>; \<open>startSettled\<close> is the rest of the round, once
  \<^verbatim>\<open>client.start\<close> has settled. Each round consumes the outcome of one call of
  \<^verbatim>\<open>client.start\<close>; a successful round sets \<^verbatim>\<open>authorized\<close>, which ends the
  loop and returns the client. \<open>None\<close>: \<^verbatim>\<open>client.start\<close> was called and never
  settles.
\<close>

fun authLoop ::
  "string \<Rightarrow> client \<Rightarrow> int \<Rightarrow> nat \<Rightarrow> string settled list \<Rightarrow> world
     \<Rightarrow> (error + client) option \<times> world"
and startSettled ::
  "string \<Rightarrow> client \<Rightarrow> int \<Rightarrow> nat \<Rightarrow> string settled list \<Rightarrow> world
     \<Rightarrow> (error + client) option \<times> world" where
  "authLoop sessionId c now attempts outs w =
     (if attempts < maxAttempts then
        startSettled sessionId c now (attempts + 1) outs (startRound sessionId c (attempts + 1) w)
      else (Some (Inl AuthExhausted), w))"
| "startSettled sessionId c now attempts1 [] w = (None, w)"
| "startSettled sessionId c now attempts1 (outcome # rest) w =
     (case outcome of
        Resolved sessionString \<Rightarrow>
          (let c1 = c\<lparr>token := JStr sessionString\<rparr>;
               w2 = saveSession sessionId sessionString now w;
               w3 = logger Debug [Txt ''Saved session data for '', Txt sessionId] w2
           in (Some (Inr c1),
               w3\<lparr>clientSessions := AList.update sessionId c1 (clientSessions w3)\<rparr>))
      | Rejected m \<Rightarrow>
          if messageIncludes m ''PASSWORD_HASH_INVALID'' then
            authLoop sessionId c now attempts1 rest
              (logger Warn [Txt ''Invalid password for session '', Txt sessionId,
                            Txt '', attempt '', Num (int attempts1)] w)
          else if messageIncludes m ''PHONE_CODE_INVALID'' then
            authLoop sessionId c now (attempts1 - 1) rest
              (logger Warn [Txt ''Invalid phone code for session '', Txt sessionId] w)
          else
            (Some (Inl (Thrown m)),
             logger Err [Txt ''Authentication error for session '', Txt sessionId,
                         Txt '': '', Msg m] w))"

text \<open>\<^verbatim>\<open>getClient\<close> from its first \<^verbatim>\<open>await\<close> on.\<close>

definition getClientResume ::
  "config \<Rightarrow> env \<Rightarrow> string \<Rightarrow> client \<Rightarrow> bool \<Rightarrow> world
     \<Rightarrow> (error + client) option \<times> world" where
  "getClientResume cfg e sessionId c existingSession w =
     (if existingSession then
        (case resumeSession cfg e sessionId c w of
           (Connected c1, w1) \<Rightarrow> (Some (Inr c1), w1)
         | (ResumeRaised err, w1) \<Rightarrow> (Some (Inl err), w1)
         | (NotResumed, w1) \<Rightarrow> authLoop sessionId c (dateNow e) 0 (starts e) w1)
      else authLoop sessionId c (dateNow e) 0 (starts e) w)"

text \<open>
  \<^verbatim>\<open>getClient(sessionId, forceNew)\<close>: \<open>Some (Inr c)\<close> when it returns the client
  \<open>c\<close>, \<open>Some (Inl err)\<close> when it raises, \<open>None\<close> when it never settles.
  \<open>getClientFinish\<close> is the call from the end of its first part on.
\<close>

definition getClientFinish ::
  "config \<Rightarrow> env \<Rightarrow> string \<Rightarrow> prologue \<Rightarrow> world \<Rightarrow> (error + client) option \<times> world" where
  "getClientFinish cfg e sessionId p w =
     (case p of
        Returned c \<Rightarrow> (Some (Inr c), w)
      | Raised err \<Rightarrow> (Some (Inl err), w)
      | Created c existingSession \<Rightarrow> getClientResume cfg e sessionId c existingSession w)"

definition getClient ::
  "config \<Rightarrow> env \<Rightarrow> string \<Rightarrow> bool \<Rightarrow> world \<Rightarrow> (error + client) option \<times> world" where
  "getClient cfg e sessionId forceNew w =
     (case getClientPrologue cfg sessionId forceNew w of
        (p, w1) \<Rightarrow> getClientFinish cfg e sessionId p w1)"

text \<open>
  The same function cut at its first \<^verbatim>\<open>await\<close>. \<open>getClientBegin\<close> is the part
  that runs without interruption when the function is called: it ends with the result,
  or waiting for \<^verbatim>\<open>client.connect()\<close>, or waiting for the first
  \<^verbatim>\<open>client.start\<close> (the loop is entered, since \<^verbatim>\<open>attempts\<close> is 0).
  \<open>getClientContinue\<close> is the rest of the call, run when the awaited call settles.
\<close>

datatype suspended = Settled "error + client" | AwaitConnect client | AwaitStart client

definition getClientBegin ::
  "config \<Rightarrow> string \<Rightarrow> bool \<Rightarrow> world \<Rightarrow> suspended \<times> world" where
  "getClientBegin cfg sessionId forceNew w =
     (case getClientPrologue cfg sessionId forceNew w of
        (Returned c, w1) \<Rightarrow> (Settled (Inr c), w1)
      | (Raised err, w1) \<Rightarrow> (Settled (Inl err), w1)
      | (Created c existingSession, w1) \<Rightarrow>
          if existingSession then (AwaitConnect c, connectBegin sessionId c w1)
          else (AwaitStart c, startRound sessionId c 1 w1))"

definition getClientContinue ::
  "config \<Rightarrow> env \<Rightarrow> string \<Rightarrow> suspended \<Rightarrow> world \<Rightarrow> (error + client) option \<times> world" where
  "getClientContinue cfg e sessionId s w =
     (case s of
        Settled r \<Rightarrow> (Some r, w)
      | AwaitConnect c \<Rightarrow>
          (case connectSettled cfg e sessionId c w of
             (Connected c1, w1) \<Rightarrow> (Some (Inr c1), w1)
           | (ResumeRaised err, w1) \<Rightarrow> (Some (Inl err), w1)
           | (NotResumed, w1) \<Rightarrow> authLoop sessionId c (dateNow e) 0 (starts e) w1)
      | AwaitStart c \<Rightarrow> startSettled sessionId c (dateNow e) 1 (starts e) w)"



section \<open>The operations on a session\<close>

text \<open>
  The four operations with their arguments: the limit; the chat and the limit; the
  chat and the message; the name of the API function and its parameters.
\<close>

datatype command =
    GetDialogs int
  | GetMessages string int
  | SendMessage string string
  | ExecuteMethod string json

fun commandName :: "command \<Rightarrow> string" where
  "commandName (GetDialogs l) = ''getDialogs''"
| "commandName (GetMessages ch l) = ''getMessages''"
| "commandName (SendMessage ch m) = ''sendMessage''"
| "commandName (ExecuteMethod f ps) = ''executeMethod''"

text \<open>The method of the client object that each operation calls.\<close>

fun clientMethod :: "command \<Rightarrow> string" where
  "clientMethod (GetDialogs l) = ''getDialogs''"
| "clientMethod (GetMessages ch l) = ''getMessages''"
| "clientMethod (SendMessage ch m) = ''sendMessage''"
| "clientMethod (ExecuteMethod f ps) = ''invoke''"

text \<open>
  What the outside answers during one operation: the answers to \<^verbatim>\<open>getClient\<close>;
  how the call of the client's method settles, together with the reshaping of its
  result by the operation (the value the operation returns, or the error raised on the
  way); and the names for which \<^verbatim>\<open>Api.functions[name]\<close> is defined, \<open>None\<close> when
  the library has no \<^verbatim>\<open>Api.functions\<close> (reading a property of it then raises a
  TypeError).
\<close>

record backend =
  clientEnv :: env
  remoteResult :: "json settled"
  apiFunctions :: "string list option"

text \<open>
  \<^verbatim>\<open>getDialogs\<close>, \<^verbatim>\<open>getMessages\<close>, \<^verbatim>\<open>sendMessage\<close> and
  \<^verbatim>\<open>executeMethod\<close> of the telegram module. The first three log and pass on
  the error they catch; \<^verbatim>\<open>executeMethod\<close> raises a new error with the message of
  the one it caught, or \<^verbatim>\<open>'Unknown error'\<close>.
\<close>

fun rethrow :: "command \<Rightarrow> error \<Rightarrow> error" where
  "rethrow (ExecuteMethod f ps) err =
     Thrown (Some (case errorMessage err of
                     None \<Rightarrow> ''Unknown error''
                   | Some m \<Rightarrow> if m \<noteq> [] then m else ''Unknown error''))"
| "rethrow cmd err = err"

definition telegramCatch :: "command \<Rightarrow> error \<Rightarrow> world \<Rightarrow> (error + json) option \<times> world" where
  "telegramCatch cmd err w =
     (Some (Inl (rethrow cmd err)),
      logger Err [Txt ''Error in '', Txt (commandName cmd), Txt '': '', Msg (errorMessage err)] w)"

definition telegramCall :: "command \<Rightarrow> backend \<Rightarrow> client \<Rightarrow> world \<Rightarrow> (error + json) option \<times> world" where
  "telegramCall cmd b c w =
     (let w1 = called (Remote (cid c) (clientMethod cmd)) w
      in case remoteResult b of
           Resolved j \<Rightarrow> (Some (Inr j), w1)
         | Rejected m \<Rightarrow> telegramCatch cmd (Thrown m) w1)"

definition telegram ::
  "command \<Rightarrow> config \<Rightarrow> backend \<Rightarrow> string \<Rightarrow> world \<Rightarrow> (error + json) option \<times> world" where
  "telegram cmd cfg b sessionId w =
     (case getClient cfg (clientEnv b) sessionId False w of
        (None, w1) \<Rightarrow> (None, w1)
      | (Some (Inl err), w1) \<Rightarrow> telegramCatch cmd err w1
      | (Some (Inr c), w1) \<Rightarrow>
          (case cmd of
             ExecuteMethod f ps \<Rightarrow>
               (case apiFunctions b of
                  None \<Rightarrow>
                    telegramCatch cmd
                      (Thrown (Some (''Cannot read properties of undefined (reading ''
                                     @ [CHR 0x27] @ f @ [CHR 0x27] @ '')''))) w1
                | Some names \<Rightarrow>
                    if f \<in> set names then telegramCall cmd b c w1
                    else telegramCatch cmd
                           (Thrown (Some (''Method '' @ f @ '' not found in Telegram API''))) w1)
           | _ \<Rightarrow> telegramCall cmd b c w1))"

section \<open>The tools\<close>

text \<open>
  \<^verbatim>\<open>checkSessionExists\<close>, the same function in \<^verbatim>\<open>mcp-server.js\<close> and in
  \<^verbatim>\<open>mcp/tools.js\<close>.
\<close>

definition checkSessionExists :: "string \<Rightarrow> world \<Rightarrow> bool \<times> world" where
  "checkSessionExists session w =
     (let sessionFile = sessionFilePath (sessionsDir w) session;
          w1 = logger Debug [Txt ''Checking session file: '', Txt (pathText sessionFile)] w
      in if \<not> existsSync (files w1) sessionFile then
           (False, logger Warn [Txt ''Session file not found: '', Txt (pathText sessionFile)] w1)
         else
           (case readJson (files w1) sessionFile of
              Inl m \<Rightarrow> (False, logger Err [Txt ''Error reading session file: '', Txt m] w1)
            | Inr sessionData \<Rightarrow>
                (case property sessionData ''session'' of
                   Inl m \<Rightarrow> (False, logger Err [Txt ''Error reading session file: '', Txt m] w1)
                 | Inr v \<Rightarrow>
                     if \<not> truthy v then
                       (False,
                        logger Warn [Txt ''Invalid session data in file: '',
                                     Txt (pathText sessionFile)] w1)
                     else (True, w1))))"

definition noSessionText :: "string \<Rightarrow> piece list" where
  "noSessionText session =
     [Txt ''Session file for '', Txt session,
      Txt '' does not exist or is invalid. Please create a session first.'']"

text \<open>
  The tools of \<^verbatim>\<open>mcp/tools.js\<close> return an object:
  \<^verbatim>\<open>{ error: true, message }\<close> with a message of their own,
  \<^verbatim>\<open>{ error: true, message: error.message, details: error.stack }\<close> for an error they
  caught (the model leaves the stack out), or
  \<^verbatim>\<open>{ type: "text", text: JSON.stringify(result, null, 2) }\<close>.
\<close>

datatype toolResult = ToolError "piece list" | ToolCaught "string option" | ToolText json

fun toolArguments :: "command \<Rightarrow> string \<Rightarrow> piece list" where
  "toolArguments (GetDialogs l) session =
     [Txt '' for session '', Txt session, Txt '' with limit '', Num l]"
| "toolArguments (GetMessages ch l) session =
     [Txt '' for session '', Txt session, Txt '', chat '', Txt ch, Txt '', limit '', Num l]"
| "toolArguments (SendMessage ch m) session =
     [Txt '' for session '', Txt session, Txt '', chat '', Txt ch]"
| "toolArguments (ExecuteMethod f ps) session =
     [Txt '' for session '', Txt session, Txt '', method '', Txt f]"

text \<open>
  \<^verbatim>\<open>getDialogsTool\<close>, \<^verbatim>\<open>getMessagesTool\<close>, \<^verbatim>\<open>sendMessageTool\<close> and
  \<^verbatim>\<open>executeMethodTool\<close> of \<^verbatim>\<open>mcp/tools.js\<close>. \<open>None\<close>: the tool never
  returns, because \<^verbatim>\<open>getClient\<close> never settles.
\<close>

definition tool ::
  "command \<Rightarrow> config \<Rightarrow> backend \<Rightarrow> string \<Rightarrow> world \<Rightarrow> toolResult option \<times> world" where
  "tool cmd cfg b session w =
     (let w1 = logger Debug
                 ([Txt ''Executing '', Txt (commandName cmd), Txt ''Tool''] @ toolArguments cmd session) w
      in case checkSessionExists session w1 of
           (False, w2) \<Rightarrow> (Some (ToolError (noSessionText session)), w2)
         | (True, w2) \<Rightarrow>
             (case telegram cmd cfg b session w2 of
                (None, w3) \<Rightarrow> (None, w3)
              | (Some (Inr j), w3) \<Rightarrow> (Some (ToolText j), w3)
              | (Some (Inl err), w3) \<Rightarrow>
                  (Some (ToolCaught (errorMessage err)),
                   logger Err [Txt ''Error in '', Txt (commandName cmd), Txt ''Tool: '',
                               Msg (errorMessage err)] w3)))"

text \<open>
  The tools of the stdio server \<^verbatim>\<open>mcp-server.js\<close>. A handler returns
  \<^verbatim>\<open>{ isError: true, content: [{ type: 'text', text }] }\<close> or
  \<^verbatim>\<open>{ content: [{ type: 'text', text: JSON.stringify(result, null, 2) }] }\<close>. The
  arguments reach the handler after the server library has checked them against the
  declared types, so \<open>session\<close> is a string.
\<close>

datatype serverResult = IsError "piece list" | Content json

fun serverArguments :: "command \<Rightarrow> string \<Rightarrow> piece list" where
  "serverArguments (GetDialogs l) session =
     [Txt '' tool for session '', Txt session, Txt '', limit '', Num l]"
| "serverArguments (GetMessages ch l) session =
     [Txt '' tool for session '', Txt session, Txt '', chat '', Txt ch, Txt '', limit '', Num l]"
| "serverArguments (SendMessage ch m) session =
     [Txt '' tool for session '', Txt session, Txt '', chat '', Txt ch]"
| "serverArguments (ExecuteMethod f ps) session =
     [Txt '' tool for session '', Txt session, Txt '', method '', Txt f]"

fun serverErrorPrefix :: "command \<Rightarrow> string" where
  "serverErrorPrefix (GetDialogs l) = ''Error getting dialogs: ''"
| "serverErrorPrefix (GetMessages ch l) = ''Error getting messages: ''"
| "serverErrorPrefix (SendMessage ch m) = ''Error sending message: ''"
| "serverErrorPrefix (ExecuteMethod f ps) = ''Error executing method: ''"

definition serverTool ::
  "command \<Rightarrow> config \<Rightarrow> backend \<Rightarrow> string \<Rightarrow> world \<Rightarrow> serverResult option \<times> world" where
  "serverTool cmd cfg b session w =
     (let w1 = logger Debug
                 ([Txt ''Executing '', Txt (commandName cmd)] @ serverArguments cmd session) w
      in case checkSessionExists session w1 of
           (False, w2) \<Rightarrow> (Some (IsError (noSessionText session)), w2)
         | (True, w2) \<Rightarrow>
             (case telegram cmd cfg b session w2 of
                (None, w3) \<Rightarrow> (None, w3)
              | (Some (Inr j), w3) \<Rightarrow> (Some (Content j), w3)
              | (Some (Inl err), w3) \<Rightarrow>
                  (Some (IsError [Txt (serverErrorPrefix cmd), Msg (errorMessage err)]),
                   logger Err [Txt ''Error executing '', Txt (commandName cmd), Txt '': '',
                               Msg (errorMessage err)] w3)))"

text \<open>
  The tools of the stdio server \<^verbatim>\<open>src/mcp-server.js\<close>, which hand the work to
  the tools of \<^verbatim>\<open>mcp/tools.js\<close>: an error object becomes the \<^verbatim>\<open>isError\<close>
  result with \<^verbatim>\<open>result.message || 'Unknown error'\<close>, any other result is the
  content. (These tools catch every error themselves, so the \<^verbatim>\<open>catch\<close> block of
  the handler is never entered.)
\<close>

datatype delegatedResult = DelegatedError "piece list" | DelegatedContent toolResult

definition delegatingServerTool ::
  "command \<Rightarrow> config \<Rightarrow> backend \<Rightarrow> string \<Rightarrow> world \<Rightarrow> delegatedResult option \<times> world" where
  "delegatingServerTool cmd cfg b session w =
     (let w1 = logger Debug
                 ([Txt ''Executing '', Txt (commandName cmd)] @ serverArguments cmd session) w
      in case tool cmd cfg b session w1 of
           (None, w2) \<Rightarrow> (None, w2)
         | (Some (ToolError message), w2) \<Rightarrow> (Some (DelegatedError message), w2)
         | (Some (ToolCaught m), w2) \<Rightarrow>
             (Some (DelegatedError
                [Txt (case m of
                        None \<Rightarrow> ''Unknown error''
                      | Some t \<Rightarrow> if t \<noteq> [] then t else ''Unknown error'')]),
              w2)
         | (Some (ToolText j), w2) \<Rightarrow> (Some (DelegatedContent (ToolText j)), w2))"

section \<open>The command dispatcher\<close>

text \<open>
  The schemas of \<^verbatim>\<open>toolSchemas\<close>: for each property its type and its default,
  and the required properties.
\<close>

datatype jsonType = StringType | IntegerType | ObjectType

record schema =
  schemaProperties :: "(string \<times> jsonType \<times> json option) list"
  schemaRequired :: "string list"

definition toolSchemas :: "(string \<times> schema) list" where
  "toolSchemas =
     [(''getDialogs'',
       \<lparr>schemaProperties = [(''session'', StringType, None),
                            (''limit'', IntegerType, Some (JNum 100))],
        schemaRequired = [''session'']\<rparr>),
      (''getMessages'',
       \<lparr>schemaProperties = [(''session'', StringType, None),
                            (''chatId'', StringType, None),
                            (''limit'', IntegerType, Some (JNum 100))],
        schemaRequired = [''session'', ''chatId'']\<rparr>),
      (''sendMessage'',
       \<lparr>schemaProperties = [(''session'', StringType, None),
                            (''chatId'', StringType, None),
                            (''message'', StringType, None)],
        schemaRequired = [''session'', ''chatId'', ''message'']\<rparr>),
      (''executeMethod'',
       \<lparr>schemaProperties = [(''session'', StringType, None),
                            (''method'', StringType, None),
                            (''params'', ObjectType, Some (JObj []))],
        schemaRequired = [''session'', ''method'']\<rparr>)]"

text \<open>
  The validator that \<^verbatim>\<open>ajv.compile(schema)\<close> returns, with \<^verbatim>\<open>useDefaults\<close>:
  the data must be an object; the defaults of the missing properties are filled in; the
  first missing required property, then the first property of the wrong type, is the
  error. The result is the text of \<^verbatim>\<open>ajv.errorsText(validate.errors)\<close>, or the
  properties of the data with the defaults.
\<close>

fun hasType :: "jsonType \<Rightarrow> json \<Rightarrow> bool" where
  "hasType StringType (JStr s) = True"
| "hasType IntegerType (JNum n) = True"
| "hasType ObjectType (JObj kvs) = True"
| "hasType t v = False"

fun typeName :: "jsonType \<Rightarrow> string" where
  "typeName StringType = ''string''"
| "typeName IntegerType = ''integer''"
| "typeName ObjectType = ''object''"

fun assignDefaults ::
  "(string \<times> jsonType \<times> json option) list \<Rightarrow> (string \<times> json) list \<Rightarrow> (string \<times> json) list" where
  "assignDefaults [] kvs = kvs"
| "assignDefaults ((k, t, None) # ps) kvs = assignDefaults ps kvs"
| "assignDefaults ((k, t, Some d) # ps) kvs =
     assignDefaults ps (if map_of kvs k = None then kvs @ [(k, d)] else kvs)"

fun missingRequired :: "string list \<Rightarrow> (string \<times> json) list \<Rightarrow> string option" where
  "missingRequired [] kvs = None"
| "missingRequired (k # ks) kvs = (if map_of kvs k = None then Some k else missingRequired ks kvs)"

fun wrongType ::
  "(string \<times> jsonType \<times> json option) list \<Rightarrow> (string \<times> json) list \<Rightarrow> (string \<times> jsonType) option" where
  "wrongType [] kvs = None"
| "wrongType ((k, t, d) # ps) kvs =
     (case map_of kvs k of
        None \<Rightarrow> wrongType ps kvs
      | Some v \<Rightarrow> if hasType t v then wrongType ps kvs else Some (k, t))"

definition validate :: "schema \<Rightarrow> json \<Rightarrow> string + (string \<times> json) list" where
  "validate sch d =
     (case d of
        JObj kvs \<Rightarrow>
          (let kvs1 = assignDefaults (schemaProperties sch) kvs
           in case missingRequired (schemaRequired sch) kvs1 of
                Some k \<Rightarrow> Inl (''data must have required property '' @ [CHR 0x27] @ k @ [CHR 0x27])
              | None \<Rightarrow>
                  (case wrongType (schemaProperties sch) kvs1 of
                     Some (k, t) \<Rightarrow> Inl (''data/'' @ k @ '' must be '' @ typeName t)
                   | None \<Rightarrow> Inr kvs1))
      | _ \<Rightarrow> Inl ''data must be object'')"

text \<open>
  The property key that a function name is converted to in \<^verbatim>\<open>toolRegistry[name]\<close>,
  when it can be the name of a property: a string is its own key and an array of one
  element has the key of its element. Every other value is converted to a text that
  names no property of the registry or of \<^verbatim>\<open>Object.prototype\<close>.
\<close>

fun nameKey :: "json \<Rightarrow> string option" where
  "nameKey (JStr s) = Some s"
| "nameKey (JArr [x]) = nameKey x"
| "nameKey v = None"

definition objectPrototype :: "string list" where
  "objectPrototype =
     [''constructor'', ''__defineGetter__'', ''__defineSetter__'', ''hasOwnProperty'',
      ''__lookupGetter__'', ''__lookupSetter__'', ''isPrototypeOf'', ''propertyIsEnumerable'',
      ''toString'', ''valueOf'', ''__proto__'', ''toLocaleString'']"

text \<open>
  The arguments a tool takes from the validated parameters
  (\<^verbatim>\<open>{ session, chatId, limit = 100 }\<close>).
\<close>

definition stringField :: "(string \<times> json) list \<Rightarrow> string \<Rightarrow> string" where
  "stringField kvs k = (case map_of kvs k of Some (JStr s) \<Rightarrow> s | _ \<Rightarrow> [])"

definition limitField :: "(string \<times> json) list \<Rightarrow> int" where
  "limitField kvs = (case map_of kvs ''limit'' of Some (JNum n) \<Rightarrow> n | _ \<Rightarrow> 100)"

definition paramsField :: "(string \<times> json) list \<Rightarrow> json" where
  "paramsField kvs = (case map_of kvs ''params'' of Some j \<Rightarrow> j | None \<Rightarrow> JObj [])"

definition toolCommand :: "string \<Rightarrow> (string \<times> json) list \<Rightarrow> command" where
  "toolCommand k kvs =
     (if k = ''getDialogs'' then GetDialogs (limitField kvs)
      else if k = ''getMessages'' then GetMessages (stringField kvs ''chatId'') (limitField kvs)
      else if k = ''sendMessage'' then
        SendMessage (stringField kvs ''chatId'') (stringField kvs ''message'')
      else ExecuteMethod (stringField kvs ''method'') (paramsField kvs))"

text \<open>
  The request body: \<open>None\<close> is a missing body. The result of the first check of
  \<^verbatim>\<open>handleMcpRequest\<close> is the pair \<^verbatim>\<open>{ name, parameters }\<close> of
  \<^verbatim>\<open>body.function_call\<close>, when the body and its \<^verbatim>\<open>function_call\<close> are objects
  (an array is one, and has neither property).
\<close>

definition functionCall :: "json option \<Rightarrow> (json option \<times> json option) option" where
  "functionCall body =
     (case body of
        Some (JObj kvs) \<Rightarrow>
          (case map_of kvs ''function_call'' of
             Some (JObj fc) \<Rightarrow> Some (map_of fc ''name'', map_of fc ''parameters'')
           | Some (JArr xs) \<Rightarrow> Some (None, None)
           | _ \<Rightarrow> None)
      | _ \<Rightarrow> None)"

text \<open>
  The response: \<^verbatim>\<open>res.status(200).json({ isError: true, content: [{ type: 'text',
  text }] })\<close> or \<^verbatim>\<open>res.json({ content: result })\<close>.
\<close>

datatype response = ErrorResponse "piece list" | ContentResponse toolResult

text \<open>
  The lookup \<^verbatim>\<open>toolRegistry[name]\<close>: one of the four tools, a member of
  \<^verbatim>\<open>Object.prototype\<close> that the registry inherits, or nothing.
\<close>

datatype entry = Registered string schema | Inherited string | NotFound

definition toolRegistry :: "json option \<Rightarrow> entry" where
  "toolRegistry name =
     (case (case name of None \<Rightarrow> None | Some n \<Rightarrow> nameKey n) of
        None \<Rightarrow> NotFound
      | Some k \<Rightarrow>
          (case map_of toolSchemas k of
             Some sch \<Rightarrow> Registered k sch
           | None \<Rightarrow> if k \<in> set objectPrototype then Inherited k else NotFound))"

text \<open>
  \<^verbatim>\<open>handleMcpRequest\<close>. An inherited member passes the check of the registry and
  is called as the validator. \<^verbatim>\<open>isPrototypeOf\<close> returns false for parameters that
  are not an object, which makes them invalid parameters, with the text
  \<^verbatim>\<open>ajv.errorsText(undefined)\<close>; in every other case the use of the member as a
  tool raises a TypeError inside the \<^verbatim>\<open>try\<close> block. \<open>None\<close>: the tool never
  returns.
\<close>

fun isObject :: "json \<Rightarrow> bool" where
  "isObject (JObj kvs) = True"
| "isObject (JArr xs) = True"
| "isObject v = False"

definition handleMcpRequest ::
  "config \<Rightarrow> backend \<Rightarrow> json option \<Rightarrow> world \<Rightarrow> response option \<times> world" where
  "handleMcpRequest cfg b body w =
     (case functionCall body of
        None \<Rightarrow>
          (Some (ErrorResponse
             [Txt ''Invalid MCP request format: Request must include a valid function_call object'']),
           logger Warn [Txt ''Invalid MCP request format: Missing or invalid function_call''] w)
      | Some (name, parameters) \<Rightarrow>
          (let paramsToValidate =
                 (case parameters of
                    None \<Rightarrow> JObj []
                  | Some ps \<Rightarrow> if truthy (Some ps) then ps else JObj []);
               w1 = logger Info [Txt ''MCP request: '', Val name, Txt '' with parameters '',
                                 Json paramsToValidate] w
           in case toolRegistry name of
                NotFound \<Rightarrow>
                  (Some (ErrorResponse
                     [Txt ''Function not found: The function '', Txt [CHR 0x27], Val name,
                      Txt [CHR 0x27], Txt '' is not supported by this MCP server'']),
                   logger Warn [Txt ''Function not found: '', Val name] w)
              | Inherited k \<Rightarrow>
                  if k = ''isPrototypeOf'' \<and> \<not> isObject paramsToValidate then
                    (Some (ErrorResponse
                       [Txt ''Invalid parameters for '', Val name, Txt '': '', Txt ''No errors'']),
                     logger Warn [Txt ''Invalid parameters for tool '', Val name, Txt '': '',
                                  Txt ''No errors''] w1)
                  else
                    (Some (ErrorResponse
                       [Txt ''MCP execution error in '', Val name, Txt '': '', EngineMsg k]),
                     logger Err [Txt ''MCP execution error in tool '', Txt [CHR 0x27], Val name,
                                 Txt [CHR 0x27], Txt '': '', EngineMsg k] w1)
              | Registered k sch \<Rightarrow>
                  (case validate sch paramsToValidate of
                     Inl diagnostic \<Rightarrow>
                       (Some (ErrorResponse
                          [Txt ''Invalid parameters for '', Val name, Txt '': '', Txt diagnostic]),
                        logger Warn [Txt ''Invalid parameters for tool '', Val name, Txt '': '',
                                     Txt diagnostic] w1)
                   | Inr validParams \<Rightarrow>
                       (case tool (toolCommand k validParams) cfg b
                               (stringField validParams ''session'') w1 of
                          (None, w2) \<Rightarrow> (None, w2)
                        | (Some result, w2) \<Rightarrow>
                            (Some (ContentResponse result),
                             logger Debug [Txt ''Tool '', Val name,
                                           Txt '' executed successfully''] w2)))))"

section \<open>The sessions found at startup\<close>

text \<open>
  \<^verbatim>\<open>path.basename(file, ext)\<close> for a file name without a directory part (an entry
  of a directory).
\<close>

definition basename :: "string \<Rightarrow> string \<Rightarrow> string" where
  "basename file ext =
     (if ext \<noteq> [] \<and> endsWith file ext then take (length file - length ext) file else file)"

text \<open>
  The loop \<^verbatim>\<open>for (const file of sessionFiles)\<close> of
  \<^verbatim>\<open>checkSessionsOnStartup\<close>, with \<^verbatim>\<open>validSessions\<close> as it stands.
\<close>

fun scanLoop :: "string list \<Rightarrow> string list \<Rightarrow> world \<Rightarrow> string list \<times> world" where
  "scanLoop [] validSessions w = (validSessions, w)"
| "scanLoop (file # rest) validSessions w =
     (let sessionId = basename file ''.json''
      in case readJson (files w) (path_join (sessionsDir w) file) of
           Inl m \<Rightarrow>
             scanLoop rest validSessions
               (logger Warn [Txt ''- '', Txt sessionId, Txt '' (failed to read: '', Txt m, Txt '')''] w)
         | Inr sessionData \<Rightarrow>
             (case property sessionData ''session'' of
                Inl m \<Rightarrow>
                  scanLoop rest validSessions
                    (logger Warn [Txt ''- '', Txt sessionId, Txt '' (failed to read: '', Txt m,
                                  Txt '')''] w)
              | Inr v \<Rightarrow>
                  if truthy v then
                    scanLoop rest (validSessions @ [sessionId])
                      (logger Info [Txt ''- '', Txt sessionId, Txt '' (valid)''] w)
                  else
                    scanLoop rest validSessions
                      (logger Warn [Txt ''- '', Txt sessionId,
                                    Txt '' (damaged - missing session string)''] w)))"


section \<open>Predicates of the claims\<close>



text \<open>
  A session with no usable record on disk: no file, a file that cannot be read or
  parsed, or a parsed value without a (non-empty) \<open>session\<close> field.
\<close>

fun noUsableRecord :: "content option \<Rightarrow> bool" where
  "noUsableRecord None = True"
| "noUsableRecord (Some (Unreadable m)) = True"
| "noUsableRecord (Some (Parsed (JObj kvs))) = (\<not> truthy (map_of kvs ''session''))"
| "noUsableRecord (Some (Parsed j)) = True"

text \<open>
  The parameters of a request omit \<open>chatId\<close>: they are missing, are not an object, or
  are an object without that property.
\<close>

fun omitsChatId :: "json option \<Rightarrow> bool" where
  "omitsChatId (Some (JObj kvs)) = (map_of kvs ''chatId'' = None)"
| "omitsChatId ps = True"


section \<open>Example states and answers\<close>

text \<open>
  The concrete inputs at which the theorems below are instantiated. The session
  strings have the form of those the library writes: the version \<^verbatim>\<open>1\<close>, then the
  base64 text of the data centre, the server address, the port and the key. In the
  examples the library decodes every session string that has passed the check of the
  version.
\<close>

definition sessionsPath :: path where
  "sessionsPath = [''app'', ''sessions'']"

definition storedToken :: string where
  "storedToken = ''1AgAOMTQ5LjE1NC4xNjcuNTEBux+TYD21O/rVySOQ9zXQy7hhe0q4IUrpHA==''"

definition otherToken :: string where
  "otherToken = ''1AgAOMTQ5LjE1NC4xNjcuNTEBuw9he6mOag9CZRflGv+GhY2lkjmavN6AsQ==''"

definition fourthToken :: string where
  "fourthToken = ''1BAAOMTQ5LjE1NC4xNjcuOTEBuxHuXprz7sDcWvptEdtPEeWnqeyVqGaNpQ==''"

definition freshToken :: string where
  "freshToken = ''1AgAOMTQ5LjE1NC4xNjcuNTEBu6JT/wnFqGeOH9GWKywykkXhOeRfnMbO1A==''"

definition tokenA :: string where
  "tokenA = ''1AgAOMTQ5LjE1NC4xNjcuNTEBu1Wa6tCCZNV5XTkJcYzdBavUlXLoT+VVkA==''"

definition tokenB :: string where
  "tokenB = ''1AgAOMTQ5LjE1NC4xNjcuNTEBu99+cOUCFUT0g0u+5kqeN4n+vEvoFHDfYg==''"

definition noWorld :: world where
  "noWorld = \<lparr>files = [], sessionsDir = sessionsPath, decoding = (\<lambda>session. None),
               clientSessions = [], nextId = 0, logged = [], calls = []\<rparr>"

definition savedRecord :: "string \<Rightarrow> content" where
  "savedRecord t = Parsed (JObj [(''session'', JStr t), (''timestamp'', JNum 1700000000000)])"

definition savedWorld :: world where
  "savedWorld = \<lparr>files = [(sessionsPath @ [''+1000.json''], savedRecord storedToken)],
                  sessionsDir = sessionsPath, decoding = (\<lambda>session. None),
                  clientSessions = [], nextId = 0, logged = [], calls = []\<rparr>"

definition otherSessionWorld :: world where
  "otherSessionWorld = \<lparr>files = [(sessionsPath @ [''+2000.json''], savedRecord otherToken)],
                         sessionsDir = sessionsPath, decoding = (\<lambda>session. None),
                         clientSessions = [], nextId = 0, logged = [], calls = []\<rparr>"

definition pooledClient :: client where
  "pooledClient = \<lparr>cid = 0, token = JStr storedToken, clientApiId = 1,
                    clientApiHash = ''placeholder_hash'', sessionOnly = True\<rparr>"

definition pooledWorld :: world where
  "pooledWorld = \<lparr>files = [(sessionsPath @ [''+1000.json''], savedRecord storedToken)],
                   sessionsDir = sessionsPath, decoding = (\<lambda>session. None),
                   clientSessions = [(''+1000'', pooledClient)],
                   nextId = 1, logged = [], calls = []\<rparr>"

definition scannedWorld :: world where
  "scannedWorld =
     \<lparr>files = [(sessionsPath @ [''+1000.json''], savedRecord storedToken),
               (sessionsPath @ [''+2000.json''], Parsed (JObj [])),
               (sessionsPath @ [''+3000.json''], Unreadable ''Unexpected end of JSON input''),
               (sessionsPath @ [''notes.txt''], Unreadable ''Unexpected token''),
               (sessionsPath @ [''+4000.json''], savedRecord fourthToken),
               (sessionsPath @ [''+5000.json''], Parsed (JObj [(''session'', JStr [])]))],
      sessionsDir = sessionsPath, decoding = (\<lambda>session. None),
      clientSessions = [], nextId = 0, logged = [], calls = []\<rparr>"

text \<open>Records whose \<open>session\<close> field is not a string.\<close>

definition untypedWorld :: world where
  "untypedWorld =
     \<lparr>files = [(sessionsPath @ [''+6000.json''], Parsed (JObj [(''session'', JBool True)])),
               (sessionsPath @ [''+7000.json''], Parsed (JObj [(''session'', JNum 5)]))],
      sessionsDir = sessionsPath, decoding = (\<lambda>session. None),
      clientSessions = [], nextId = 0, logged = [], calls = []\<rparr>"

definition acceptingEnv :: env where
  "acceptingEnv = \<lparr>connectResult = Resolved (), authorizedResult = Resolved True,
                    starts = [], dateNow = 1700000000000\<rparr>"

definition revokedEnv :: env where
  "revokedEnv = \<lparr>connectResult = Resolved (), authorizedResult = Resolved False,
                  starts = [], dateNow = 1700000000000\<rparr>"

definition loginEnv :: "string \<Rightarrow> env" where
  "loginEnv t = \<lparr>connectResult = Resolved (), authorizedResult = Resolved False,
                 starts = [Resolved t], dateNow = 1700000000000\<rparr>"

definition wrongPassword :: "string option" where
  "wrongPassword = Some ''400: PASSWORD_HASH_INVALID (caused by auth.CheckPassword)''"

definition wrongCode :: "string option" where
  "wrongCode = Some ''400: PHONE_CODE_INVALID (caused by auth.SignIn)''"

definition wrongPasswordsEnv :: env where
  "wrongPasswordsEnv =
     \<lparr>connectResult = Resolved (), authorizedResult = Resolved False,
      starts = [Rejected wrongPassword, Rejected wrongPassword, Rejected wrongPassword],
      dateNow = 1700000000000\<rparr>"

definition realConfig :: config where
  "realConfig = \<lparr>apiId = 12345, apiHash = ''0123456789abcdef''\<rparr>"

definition noCredentials :: processEnv where
  "noCredentials = \<lparr>API_ID = None, API_HASH = None\<rparr>"

definition quietBackend :: backend where
  "quietBackend = \<lparr>clientEnv = acceptingEnv, remoteResult = Resolved (JArr []),
                    apiFunctions = Some []\<rparr>"

definition getMessagesRequest :: "json option" where
  "getMessagesRequest =
     Some (JObj [(''function_call'',
                  JObj [(''name'', JStr ''getMessages''),
                        (''parameters'', JObj [(''session'', JStr ''+1000'')])])])"

section \<open>Properties\<close>

subsection \<open>What logging and calling leave unchanged\<close>

lemma files_logger [simp]: "files (logger l m w) = files w"
  by (simp add: logger_def)

lemma files_called [simp]: "files (called c w) = files w"
  by (simp add: called_def)

lemma logger_proj [simp]:
  "clientSessions (logger l m w) = clientSessions w"
  "nextId (logger l m w) = nextId w"
  "calls (logger l m w) = calls w"
  "logged (logger l m w) = logged w @ [(l, m)]"
  "sessionsDir (logger l m w) = sessionsDir w"
  "decoding (logger l m w) = decoding w"
  by (simp_all add: logger_def)

lemma called_proj [simp]:
  "clientSessions (called k w) = clientSessions w"
  "nextId (called k w) = nextId w"
  "calls (called k w) = calls w @ [k]"
  "logged (called k w) = logged w"
  "sessionsDir (called k w) = sessionsDir w"
  "decoding (called k w) = decoding w"
  by (simp_all add: called_def)

lemma saveSession_proj [simp]:
  "clientSessions (saveSession sid t now w) = clientSessions w"
  "nextId (saveSession sid t now w) = nextId w"
  "calls (saveSession sid t now w) = calls w"
  "logged (saveSession sid t now w) = logged w"
  "sessionsDir (saveSession sid t now w) = sessionsDir w"
  "decoding (saveSession sid t now w) = decoding w"
  by (simp_all add: saveSession_def writeFileSync_def)

lemma newStringSession_cong:
  "decoding w' = decoding w \<Longrightarrow> newStringSession w' t = newStringSession w t"
  by (simp add: newStringSession_def split: json.splits)

lemma newStringSession_logger [simp]:
  "newStringSession (logger l m w) t = newStringSession w t"
  by (simp add: newStringSession_def split: json.splits)

lemma newStringSession_saveSession [simp]:
  "newStringSession (saveSession sid s now w) t = newStringSession w t"
  by (simp add: newStringSession_def split: json.splits)


lemma loadSession_frame [simp]:
  "files (snd (loadSession w sid)) = files w"
  "clientSessions (snd (loadSession w sid)) = clientSessions w"
  "nextId (snd (loadSession w sid)) = nextId w"
  "calls (snd (loadSession w sid)) = calls w"
  "sessionsDir (snd (loadSession w sid)) = sessionsDir w"
  "decoding (snd (loadSession w sid)) = decoding w"
  by (simp_all add: loadSession_def Let_def split: sum.splits option.splits)

subsection \<open>Paths and session files\<close>




subsection \<open>The parts of getClient\<close>

declare authLoop.simps [simp del]

lemma resumeSession_unfold:
  "resumeSession cfg e sessionId c w =
     (let w1 = called (Connect (cid c))
                 (logger Debug [Txt ''Connecting with existing session for '', Txt sessionId] w)
      in case connectResult e of
           Rejected m \<Rightarrow> resumeCatch cfg m w1
         | Resolved u \<Rightarrow>
             (let w2 = called (IsUserAuthorized (cid c)) w1
              in case authorizedResult e of
                   Rejected m \<Rightarrow> resumeCatch cfg m w2
                 | Resolved True \<Rightarrow>
                     (let w3 = logger Info [Txt ''Successfully connected with existing session for '',
                                            Txt sessionId] w2
                      in (Connected c,
                          w3\<lparr>clientSessions := AList.update sessionId c (clientSessions w3)\<rparr>))
                 | Resolved False \<Rightarrow>
                     (NotResumed,
                      logger Warn [Txt ''Session exists but not authorized for '', Txt sessionId,
                                   Txt '', will try interactive login''] w2)))"
  by (simp add: resumeSession_def connectSettled_def connectBegin_def Let_def)

text \<open>The loop, written round by round.\<close>

lemma authLoop_Nil [simp]:
  "authLoop sessionId c now attempts [] w =
     (if attempts < maxAttempts then
        (None,
         called (Start (cid c) (attempts + 1))
           (logger Debug [Txt ''Starting client for session '', Txt sessionId,
                          Txt '' (attempt '', Num (int (attempts + 1)), Txt '')''] w))
      else (Some (Inl AuthExhausted), w))"
  by (simp add: authLoop.simps startRound_def)

lemma authLoop_Cons [simp]:
  "authLoop sessionId c now attempts (outcome # rest) w =
     (if attempts < maxAttempts then
        (let attempts1 = attempts + 1;
             w1 = called (Start (cid c) attempts1)
                    (logger Debug [Txt ''Starting client for session '', Txt sessionId,
                                   Txt '' (attempt '', Num (int attempts1), Txt '')''] w)
         in case outcome of
              Resolved sessionString \<Rightarrow>
                (let c1 = c\<lparr>token := JStr sessionString\<rparr>;
                     w2 = saveSession sessionId sessionString now w1;
                     w3 = logger Debug [Txt ''Saved session data for '', Txt sessionId] w2
                 in (Some (Inr c1),
                     w3\<lparr>clientSessions := AList.update sessionId c1 (clientSessions w3)\<rparr>))
            | Rejected m \<Rightarrow>
                if messageIncludes m ''PASSWORD_HASH_INVALID'' then
                  authLoop sessionId c now attempts1 rest
                    (logger Warn [Txt ''Invalid password for session '', Txt sessionId,
                                  Txt '', attempt '', Num (int attempts1)] w1)
                else if messageIncludes m ''PHONE_CODE_INVALID'' then
                  authLoop sessionId c now (attempts1 - 1) rest
                    (logger Warn [Txt ''Invalid phone code for session '', Txt sessionId] w1)
                else
                  (Some (Inl (Thrown m)),
                   logger Err [Txt ''Authentication error for session '', Txt sessionId,
                               Txt '': '', Msg m] w1))
      else (Some (Inl AuthExhausted), w))"
  by (cases outcome) (simp_all add: authLoop.simps startRound_def Let_def)


lemma authLoop_files_fail:
  "\<forall>c'. fst (authLoop sid c now a outs w) \<noteq> Some (Inr c') \<Longrightarrow>
   files (snd (authLoop sid c now a outs w)) = files w"
proof (induction outs arbitrary: a w)
  case Nil
  show ?case by simp
next
  case (Cons out rest)
  show ?case
  proof (cases out)
    case (Resolved s)
    then show ?thesis using Cons.prems by (simp add: Let_def split: if_splits)
  next
    case (Rejected m)
    then show ?thesis
      using Cons.IH Cons.prems by (simp add: Let_def split: if_splits)
  qed
qed

lemma authLoop_pool_fail:
  "\<forall>c'. fst (authLoop sid c now a outs w) \<noteq> Some (Inr c') \<Longrightarrow>
   clientSessions (snd (authLoop sid c now a outs w)) = clientSessions w"
proof (induction outs arbitrary: a w)
  case Nil
  show ?case by simp
next
  case (Cons out rest)
  show ?case
  proof (cases out)
    case (Resolved s)
    then show ?thesis using Cons.prems by (simp add: Let_def split: if_splits)
  next
    case (Rejected m)
    then show ?thesis
      using Cons.IH Cons.prems by (simp add: Let_def split: if_splits)
  qed
qed



lemma resumeSession_frame [simp]:
  "files (snd (resumeSession cfg e sid c w)) = files w"
  "nextId (snd (resumeSession cfg e sid c w)) = nextId w"
  by (simp_all add: resumeSession_unfold resumeCatch_def Let_def split: settled.splits bool.splits)


lemma getClient_hit:
  "map_of (clientSessions w) sid = Some c \<Longrightarrow>
   getClient cfg e sid False w =
     (Some (Inr c),
      logger Info [Txt ''Using existing session from memory for '', Txt sid]
        (logger Info [Txt ''Client request for session '', Txt sid] w))"
  by (simp add: getClient_def getClientPrologue_def getClientFinish_def Let_def)

text \<open>
  \<^verbatim>\<open>getClient\<close> is its part up to the first \<^verbatim>\<open>await\<close> followed by the rest:
  the cut used for overlapping calls is a cut of the same function.
\<close>

lemma getClient_split:
  "getClient cfg e sessionId forceNew w =
     (case getClientBegin cfg sessionId forceNew w of
        (s, w1) \<Rightarrow> getClientContinue cfg e sessionId s w1)"
proof -
  obtain p w1 where p: "getClientPrologue cfg sessionId forceNew w = (p, w1)"
    by (cases "getClientPrologue cfg sessionId forceNew w")
  show ?thesis
  proof (cases p)
    case (Returned c)
    with p show ?thesis
      by (simp add: getClient_def getClientFinish_def getClientBegin_def getClientContinue_def)
  next
    case (Raised err)
    with p show ?thesis
      by (simp add: getClient_def getClientFinish_def getClientBegin_def getClientContinue_def)
  next
    case (Created c existingSession)
    with p show ?thesis
      by (simp add: getClient_def getClientFinish_def getClientBegin_def getClientContinue_def
          getClientResume_def resumeSession_def authLoop.simps maxAttempts_def)
  qed
qed




subsection \<open>Unfolding the examples\<close>

lemmas examples = noWorld_def savedRecord_def savedWorld_def otherSessionWorld_def pooledClient_def
  pooledWorld_def scannedWorld_def untypedWorld_def acceptingEnv_def revokedEnv_def loginEnv_def
  wrongPassword_def wrongCode_def wrongPasswordsEnv_def realConfig_def noCredentials_def
  quietBackend_def getMessagesRequest_def sessionsPath_def storedToken_def otherToken_def
  fourthToken_def freshToken_def tokenA_def tokenB_def

lemmas path_unfold = sessionFilePath_def path_join_def normalizeSegment_def pathText_def

lemmas getClient_unfold = getClient_def getClientPrologue_def getClientFinish_def
  getClientResume_def resumeSession_unfold resumeCatch_def loadSession_def Let_def
  SessionOnlyClient_def TelegramClient_def existsSync_def readJson_def path_unfold
  newStringSession_def logger_def called_def saveSession_def writeFileSync_def maxAttempts_def
  getClientBegin_def getClientContinue_def connectBegin_def connectSettled_def startRound_def


subsection \<open>The login loop\<close>

lemma authLoop_password_step:
  "messageIncludes m ''PASSWORD_HASH_INVALID'' \<Longrightarrow> attempts < maxAttempts \<Longrightarrow>
   authLoop sid c now attempts (Rejected m # rest) w =
     authLoop sid c now (attempts + 1) rest
       (logger Warn [Txt ''Invalid password for session '', Txt sid,
                     Txt '', attempt '', Num (int (attempts + 1))]
          (called (Start (cid c) (attempts + 1))
             (logger Debug [Txt ''Starting client for session '', Txt sid,
                            Txt '' (attempt '', Num (int (attempts + 1)), Txt '')''] w)))"
  by (simp add: Let_def)


lemma authLoop_exhausted:
  "\<not> attempts < maxAttempts \<Longrightarrow> authLoop sid c now attempts outs w = (Some (Inl AuthExhausted), w)"
  by (cases outs) simp_all

lemma loadSession_frame_eq:
  "loadSession w sid = (r, w') \<Longrightarrow>
   files w' = files w \<and> clientSessions w' = clientSessions w \<and> nextId w' = nextId w
   \<and> calls w' = calls w \<and> sessionsDir w' = sessionsDir w \<and> decoding w' = decoding w"
  using loadSession_frame [of w sid] by simp

lemma getClientPrologue_frame [simp]:
  "files (snd (getClientPrologue cfg sid fn w)) = files w"
  "clientSessions (snd (getClientPrologue cfg sid fn w)) = clientSessions w"
  "calls (snd (getClientPrologue cfg sid fn w)) = calls w"
  by (auto simp add: getClientPrologue_def Let_def split: option.splits prod.splits
      dest!: loadSession_frame_eq)

lemma getClient_via_loop:
  assumes "getClientPrologue cfg sid fn w0 = (Created c ex, w1)"
    and "ex \<Longrightarrow> fst (resumeSession cfg e sid c w1) = NotResumed"
  shows "getClient cfg e sid fn w0 =
           authLoop sid c (dateNow e) 0 (starts e)
             (if ex then snd (resumeSession cfg e sid c w1) else w1)"
  using assms
  by (cases "resumeSession cfg e sid c w1")
     (simp add: getClient_def getClientFinish_def getClientResume_def)



subsection \<open>Session records\<close>




subsection \<open>The login dialog\<close>

text \<open>
  C3. A login dialog that meets three invalid second-factor passwords in a row (three
  calls of \<^verbatim>\<open>client.start\<close> rejected with \<^verbatim>\<open>PASSWORD_HASH_INVALID\<close>) ends with
  the failure \<open>AuthExhausted\<close> after exactly these three calls; it writes no file and
  registers no client. After two of them the dialog is still open: the third call of
  \<^verbatim>\<open>client.start\<close> has been made. The same holds for \<^verbatim>\<open>getClient\<close> as a
  whole whenever it reaches the dialog: it raises \<open>AuthExhausted\<close> and the sessions
  directory is as it was before the call.
\<close>

theorem C3_three_invalid_passwords:
  assumes "messageIncludes m1 ''PASSWORD_HASH_INVALID''"
    and "messageIncludes m2 ''PASSWORD_HASH_INVALID''"
    and "messageIncludes m3 ''PASSWORD_HASH_INVALID''"
  shows "fst (authLoop sid c now 0 (Rejected m1 # Rejected m2 # Rejected m3 # rest) w)
           = Some (Inl AuthExhausted)
       \<and> files (snd (authLoop sid c now 0 (Rejected m1 # Rejected m2 # Rejected m3 # rest) w))
           = files w
       \<and> clientSessions (snd (authLoop sid c now 0 (Rejected m1 # Rejected m2 # Rejected m3 # rest) w))
           = clientSessions w
       \<and> calls (snd (authLoop sid c now 0 (Rejected m1 # Rejected m2 # Rejected m3 # rest) w))
           = calls w @ [Start (cid c) 1, Start (cid c) 2, Start (cid c) 3]
       \<and> fst (authLoop sid c now 0 [Rejected m1, Rejected m2] w) = None
       \<and> (getClientPrologue cfg sid fn w0 = (Created c ex, w1)
            \<and> (ex \<longrightarrow> fst (resumeSession cfg e sid c w1) = NotResumed)
            \<and> starts e = Rejected m1 # Rejected m2 # Rejected m3 # rest
           \<longrightarrow> fst (getClient cfg e sid fn w0) = Some (Inl AuthExhausted)
               \<and> files (snd (getClient cfg e sid fn w0)) = files w0)"
proof -
  let ?outs = "Rejected m1 # Rejected m2 # Rejected m3 # rest"
  have loop: "\<And>w. fst (authLoop sid c now 0 ?outs w) = Some (Inl AuthExhausted)" 
    and loopf: "\<And>w now. files (snd (authLoop sid c now 0 ?outs w)) = files w"
    and loopr: "\<And>w now. fst (authLoop sid c now 0 ?outs w) = Some (Inl AuthExhausted)"
    using assms by (simp_all add: authLoop_password_step authLoop_exhausted maxAttempts_def)
  have a: "fst (authLoop sid c now 0 ?outs w) = Some (Inl AuthExhausted)"
    and b: "files (snd (authLoop sid c now 0 ?outs w)) = files w"
    and c: "clientSessions (snd (authLoop sid c now 0 ?outs w)) = clientSessions w"
    and d: "calls (snd (authLoop sid c now 0 ?outs w))
              = calls w @ [Start (cid c) 1, Start (cid c) 2, Start (cid c) 3]"
    and f: "fst (authLoop sid c now 0 [Rejected m1, Rejected m2] w) = None"
    using assms by (simp_all add: authLoop_password_step authLoop_exhausted maxAttempts_def)
  have g: "fst (getClient cfg e sid fn w0) = Some (Inl AuthExhausted)
           \<and> files (snd (getClient cfg e sid fn w0)) = files w0"
    if p: "getClientPrologue cfg sid fn w0 = (Created c ex, w1)"
      and r: "ex \<longrightarrow> fst (resumeSession cfg e sid c w1) = NotResumed"
      and s: "starts e = ?outs"
  proof -
    have eq: "getClient cfg e sid fn w0 =
           authLoop sid c (dateNow e) 0 ?outs
             (if ex then snd (resumeSession cfg e sid c w1) else w1)"
      using getClient_via_loop [OF p] r s by simp
    have "files w1 = files w0"
      using getClientPrologue_frame(1) [of cfg sid fn w0] p by simp
    then show ?thesis
      using eq loopf loopr by simp
  qed
  from a b c d f g show ?thesis by blast
qed



theorem C3_three_invalid_passwords_witness:
  "messageIncludes wrongPassword ''PASSWORD_HASH_INVALID''
   \<and> starts wrongPasswordsEnv = [Rejected wrongPassword, Rejected wrongPassword, Rejected wrongPassword]
   \<and> fst (getClientPrologue realConfig ''+1000'' False noWorld)
       = Created (TelegramClient 0 (JStr []) 12345 ''0123456789abcdef'') False
   \<and> fst (getClient realConfig wrongPasswordsEnv ''+1000'' False noWorld) = Some (Inl AuthExhausted)
   \<and> files (snd (getClient realConfig wrongPasswordsEnv ''+1000'' False noWorld)) = []
   \<and> calls (snd (authLoop ''+1000'' (TelegramClient 0 (JStr []) 12345 ''0123456789abcdef'')
                    1700000000000 0
                    [Rejected wrongPassword, Rejected wrongPassword, Rejected wrongPassword] noWorld))
       = [Start 0 1, Start 0 2, Start 0 3]"
proof -
  let ?c = "TelegramClient 0 (JStr []) 12345 ''0123456789abcdef''"
  let ?p = "getClientPrologue realConfig ''+1000'' False noWorld"
  have pw: "messageIncludes wrongPassword ''PASSWORD_HASH_INVALID''"
    by (simp add: wrongPassword_def)
  have p: "fst ?p = Created ?c False"
    by (simp add: examples getClient_unfold)
  then have p': "?p = (Created ?c False, snd ?p)"
    by (metis prod.collapse)
  have s: "starts wrongPasswordsEnv = [Rejected wrongPassword, Rejected wrongPassword, Rejected wrongPassword]"
    by (simp add: wrongPasswordsEnv_def)
  have f: "files noWorld = []" "calls noWorld = []" "cid ?c = 0"
    by (simp_all add: noWorld_def TelegramClient_def)
  show ?thesis
    using C3_three_invalid_passwords [OF pw pw pw, of "''+1000''" ?c 1700000000000 "[]" noWorld
        realConfig False noWorld False "snd ?p" wrongPasswordsEnv] pw p p' s f
    by simp
qed





subsection \<open>Resumption\<close>






subsection \<open>The clients in memory\<close>

text \<open>
  C5, as stated, fails. The world \<open>pooledWorld\<close> holds a client for \<open>+1000\<close> in
  memory, and the backend would answer that this client is not authorized. The call
  returns that very client, asks nothing of the backend (no \<^verbatim>\<open>isUserAuthorized\<close>),
  and leaves it in memory.
\<close>

theorem C5_counterexample:
  "map_of (clientSessions pooledWorld) ''+1000'' = Some pooledClient
   \<and> authorizedResult revokedEnv = Resolved False
   \<and> fst (getClient realConfig revokedEnv ''+1000'' False pooledWorld) = Some (Inr pooledClient)
   \<and> IsUserAuthorized (cid pooledClient)
        \<notin> set (calls (snd (getClient realConfig revokedEnv ''+1000'' False pooledWorld)))
   \<and> clientSessions (snd (getClient realConfig revokedEnv ''+1000'' False pooledWorld))
        = clientSessions pooledWorld"
  by (simp add: examples getClient_unfold)

text \<open>
  C5, amended. When a client for the identifier is in memory and \<^verbatim>\<open>forceNew\<close> is
  not set, \<^verbatim>\<open>getClient\<close> returns that client as it is: it writes two lines to the
  log and does nothing else (no call to the backend, no change of the clients in memory
  or of the files).
\<close>

theorem C5_pool_hit_returns_cached:
  "map_of (clientSessions w) sid = Some c \<Longrightarrow>
   getClient cfg e sid False w =
     (Some (Inr c),
      w\<lparr>logged := logged w @
           [(Info, [Txt ''Client request for session '', Txt sid]),
            (Info, [Txt ''Using existing session from memory for '', Txt sid])]\<rparr>)"
  by (simp add: getClient_hit logger_def)

theorem C5_pool_hit_returns_cached_witness:
  "map_of (clientSessions pooledWorld) ''+1000'' = Some pooledClient
   \<and> getClient realConfig revokedEnv ''+1000'' False pooledWorld =
     (Some (Inr pooledClient),
      pooledWorld\<lparr>logged :=
           [(Info, [Txt ''Client request for session '', Txt ''+1000'']),
            (Info, [Txt ''Using existing session from memory for '', Txt ''+1000''])]\<rparr>)"
  using C5_pool_hit_returns_cached [of pooledWorld "''+1000''" pooledClient realConfig revokedEnv]
  by (simp add: pooledWorld_def)










subsection \<open>Credentials\<close>

lemma getClient_missing_credentials:
  assumes "fn \<or> map_of (clientSessions w) sid = None"
    and "map_of (files w) (sessionFilePath (sessionsDir w) sid) = None"
    and "apiId cfg = 0 \<or> apiHash cfg = []"
  shows "fst (getClient cfg e sid fn w) = Some (Inl MissingCredentials)"
    and "files (snd (getClient cfg e sid fn w)) = files w"
    and "calls (snd (getClient cfg e sid fn w)) = calls w"
  using assms
  by (auto simp add: getClient_def getClientPrologue_def getClientFinish_def loadSession_def
      Let_def existsSync_def)

text \<open>
  C1 fails on the code at this input: the process has no \<^verbatim>\<open>API_ID\<close> and no
  \<^verbatim>\<open>API_HASH\<close>, the sessions directory holds the record of another identifier
  (\<open>+2000\<close>), no client is in memory, and \<^verbatim>\<open>getClient\<close> is called for \<open>+1000\<close>,
  which has no record. The configuration module then supplies the placeholders \<open>1\<close> and
  \<^verbatim>\<open>dummy_hash_for_existing_sessions\<close>, the check of the credentials passes, the
  interactive login runs on a client built with these placeholders, and on success a
  record is written for \<open>+1000\<close>.
\<close>

theorem C1_placeholder_credentials_reach_login:
  "API_ID noCredentials = None \<and> API_HASH noCredentials = None
   \<and> loadConfig noCredentials (files otherSessionWorld) (sessionsDir otherSessionWorld)
       = \<lparr>apiId = 1, apiHash = ''dummy_hash_for_existing_sessions''\<rparr>
   \<and> clientSessions otherSessionWorld = []
   \<and> map_of (files otherSessionWorld) (sessionFilePath (sessionsDir otherSessionWorld) ''+1000'')
       = None
   \<and> fst (getClient
             (loadConfig noCredentials (files otherSessionWorld) (sessionsDir otherSessionWorld))
             (loginEnv freshToken) ''+1000'' False otherSessionWorld)
       = Some (Inr \<lparr>cid = 0, token = JStr freshToken, clientApiId = 1,
                     clientApiHash = ''dummy_hash_for_existing_sessions'', sessionOnly = False\<rparr>)
   \<and> calls (snd (getClient
                    (loadConfig noCredentials (files otherSessionWorld) (sessionsDir otherSessionWorld))
                    (loginEnv freshToken) ''+1000'' False otherSessionWorld))
       = [Start 0 1]
   \<and> map_of (files (snd (getClient
                            (loadConfig noCredentials (files otherSessionWorld)
                               (sessionsDir otherSessionWorld))
                            (loginEnv freshToken) ''+1000'' False otherSessionWorld)))
        [''app'', ''sessions'', ''+1000.json'']
       = Some (savedRecord freshToken)"
  by (simp add: loadConfig_def readdirSync_def endsWith_def examples getClient_unfold)

theorem C1_placeholder_credentials_reach_login_witness:
  "calls (snd (getClient
                 (loadConfig noCredentials (files otherSessionWorld) (sessionsDir otherSessionWorld))
                 (loginEnv freshToken) ''+1000'' False otherSessionWorld))
     \<noteq> []
   \<and> fst (getClient
             (loadConfig noCredentials (files otherSessionWorld) (sessionsDir otherSessionWorld))
             (loginEnv freshToken) ''+1000'' False otherSessionWorld)
       \<noteq> Some (Inl MissingCredentials)"
proof -
  note ex = C1_placeholder_credentials_reach_login
  from ex have a: "calls (snd (getClient
                    (loadConfig noCredentials (files otherSessionWorld) (sessionsDir otherSessionWorld))
                    (loginEnv freshToken) ''+1000'' False otherSessionWorld)) = [Start 0 1]"
    by (elim conjE)
  from ex have b: "fst (getClient
             (loadConfig noCredentials (files otherSessionWorld) (sessionsDir otherSessionWorld))
             (loginEnv freshToken) ''+1000'' False otherSessionWorld)
       = Some (Inr \<lparr>cid = 0, token = JStr freshToken, clientApiId = 1,
                     clientApiHash = ''dummy_hash_for_existing_sessions'', sessionOnly = False\<rparr>)"
    by (elim conjE)
  show ?thesis
    by (simp only: a b) simp
qed


subsection \<open>The scan at startup\<close>

lemma scanLoop_files [simp]: "files (snd (scanLoop fs acc w)) = files w"
  by (induction fs arbitrary: acc w) (simp_all add: Let_def split: sum.splits)









subsection \<open>The dispatcher\<close>

lemma map_of_snoc:
  "map_of (kvs @ [(k', v)]) k =
     (case map_of kvs k of Some x \<Rightarrow> Some x | None \<Rightarrow> if k = k' then Some v else None)"
  by (induction kvs) auto

lemma toolRegistry_getMessages:
  "toolRegistry name = Registered ''getMessages'' sch \<Longrightarrow>
   map_of toolSchemas ''getMessages'' = Some sch"
  by (auto simp add: toolRegistry_def split: option.splits if_splits)

lemma validate_getMessages_object:
  "map_of toolSchemas ''getMessages'' = Some sch \<Longrightarrow> map_of kvs ''chatId'' = None \<Longrightarrow>
   \<exists>k. validate sch (JObj kvs)
          = Inl (''data must have required property '' @ [CHR 0x27] @ k @ [CHR 0x27])"
  by (auto simp add: toolSchemas_def validate_def Let_def map_of_snoc simp del: map_of_append)

lemma validate_getMessages_omitted:
  assumes sch: "map_of toolSchemas ''getMessages'' = Some sch"
    and "omitsChatId parameters"
  shows "\<exists>d. d \<noteq> [] \<and>
           validate sch
             (case parameters of None \<Rightarrow> JObj []
              | Some ps \<Rightarrow> if truthy (Some ps) then ps else JObj []) = Inl d"
proof (cases parameters)
  case None
  then show ?thesis using validate_getMessages_object [OF sch, of "[]"] by auto
next
  case (Some ps)
  show ?thesis
  proof (cases ps)
    case (JObj kvs)
    then show ?thesis using Some assms validate_getMessages_object [OF sch, of kvs] by auto
  next
    case JNull
    then show ?thesis using Some validate_getMessages_object [OF sch, of "[]"] by auto
  next
    case (JBool x)
    then show ?thesis using Some validate_getMessages_object [OF sch, of "[]"]
      by (auto simp add: validate_def)
  next
    case (JNum x)
    then show ?thesis using Some validate_getMessages_object [OF sch, of "[]"]
      by (auto simp add: validate_def)
  next
    case (JStr x)
    then show ?thesis using Some validate_getMessages_object [OF sch, of "[]"]
      by (auto simp add: validate_def)
  next
    case (JArr x)
    then show ?thesis using Some by (simp add: validate_def)
  qed
qed

text \<open>
  C7. A request that names the tool \<^verbatim>\<open>getMessages\<close> and whose parameters omit
  \<open>chatId\<close> is answered with the error response
  \<^verbatim>\<open>Invalid parameters for getMessages: ...\<close> carrying a diagnostic that is not
  empty. Apart from two lines of the log the state is as it was: the tool is not
  run, the backend is not called, no client is created and no file is written.
\<close>

theorem C7_missing_chatId_is_rejected:
  assumes "functionCall body = Some (name, parameters)"
    and "toolRegistry name = Registered ''getMessages'' sch"
    and "omitsChatId parameters"
  shows "\<exists>diagnostic paramsToValidate.
           diagnostic \<noteq> [] \<and>
           handleMcpRequest cfg b body w =
             (Some (ErrorResponse
                [Txt ''Invalid parameters for '', Val name, Txt '': '', Txt diagnostic]),
              w\<lparr>logged := logged w @
                   [(Info, [Txt ''MCP request: '', Val name, Txt '' with parameters '',
                            Json paramsToValidate]),
                    (Warn, [Txt ''Invalid parameters for tool '', Val name, Txt '': '',
                            Txt diagnostic])]\<rparr>)"
proof -
  let ?ps = "case parameters of None \<Rightarrow> JObj []
              | Some ps \<Rightarrow> if truthy (Some ps) then ps else JObj []"
  have sch: "map_of toolSchemas ''getMessages'' = Some sch"
    using assms(2) by (rule toolRegistry_getMessages)
  obtain d where d: "d \<noteq> []" "validate sch ?ps = Inl d"
    using validate_getMessages_omitted [OF sch assms(3)] by blast
  have "handleMcpRequest cfg b body w =
          (Some (ErrorResponse [Txt ''Invalid parameters for '', Val name, Txt '': '', Txt d]),
           w\<lparr>logged := logged w @
                [(Info, [Txt ''MCP request: '', Val name, Txt '' with parameters '', Json ?ps]),
                 (Warn, [Txt ''Invalid parameters for tool '', Val name, Txt '': '', Txt d])]\<rparr>)"
    using assms(1,2) d(2) by (simp add: handleMcpRequest_def Let_def logger_def)
  with d(1) show ?thesis by blast
qed

theorem C7_missing_chatId_is_rejected_witness:
  "functionCall getMessagesRequest
     = Some (Some (JStr ''getMessages''), Some (JObj [(''session'', JStr ''+1000'')]))
   \<and> omitsChatId (Some (JObj [(''session'', JStr ''+1000'')]))
   \<and> (\<exists>sch. toolRegistry (Some (JStr ''getMessages'')) = Registered ''getMessages'' sch)
   \<and> (\<exists>diagnostic. diagnostic \<noteq> [] \<and>
         fst (handleMcpRequest realConfig quietBackend getMessagesRequest savedWorld)
           = Some (ErrorResponse [Txt ''Invalid parameters for '', Val (Some (JStr ''getMessages'')),
                                  Txt '': '', Txt diagnostic]))
   \<and> calls (snd (handleMcpRequest realConfig quietBackend getMessagesRequest savedWorld)) = []
   \<and> clientSessions (snd (handleMcpRequest realConfig quietBackend getMessagesRequest savedWorld)) = []"
proof -
  let ?ps = "Some (JObj [(''session'', JStr ''+1000'')])"
  let ?name = "Some (JStr ''getMessages'')"
  have a: "functionCall getMessagesRequest = Some (?name, ?ps)"
    by (simp add: functionCall_def getMessagesRequest_def)
  have o: "omitsChatId ?ps" by simp
  obtain sch where r: "toolRegistry ?name = Registered ''getMessages'' sch"
    by (simp add: toolRegistry_def toolSchemas_def)
  from C7_missing_chatId_is_rejected [OF a r o, of realConfig quietBackend savedWorld]
  obtain d pv where d: "d \<noteq> []"
    and h: "handleMcpRequest realConfig quietBackend getMessagesRequest savedWorld =
             (Some (ErrorResponse [Txt ''Invalid parameters for '', Val ?name, Txt '': '', Txt d]),
              savedWorld\<lparr>logged := logged savedWorld @
                   [(Info, [Txt ''MCP request: '', Val ?name, Txt '' with parameters '', Json pv]),
                    (Warn, [Txt ''Invalid parameters for tool '', Val ?name, Txt '': '',
                            Txt d])]\<rparr>)"
    by blast
  have s: "calls savedWorld = []" "clientSessions savedWorld = []"
    by (simp_all add: savedWorld_def)
  from a o r d h s show ?thesis by auto
qed

subsection \<open>The tools and the session record\<close>

lemma checkSessionExists_unusable:
  assumes "noUsableRecord (map_of (files w) (sessionFilePath (sessionsDir w) session))"
  shows "\<exists>lvl reason. checkSessionExists session w =
           (False,
            w\<lparr>logged := logged w @
                 [(Debug, [Txt ''Checking session file: '', Txt (pathText (sessionFilePath (sessionsDir w) session))]),
                  (lvl, reason)]\<rparr>)"
proof (cases "map_of (files w) (sessionFilePath (sessionsDir w) session)")
  case None
  then show ?thesis
    apply (simp add: checkSessionExists_def Let_def existsSync_def logger_def)
    apply (intro exI, rule refl)
    done
next
  case (Some c)
  show ?thesis
  proof (cases c)
    case (Unreadable m)
    with Some show ?thesis
      apply (simp add: checkSessionExists_def Let_def existsSync_def readJson_def logger_def)
      apply (intro exI, rule refl)
      done
  next
    case (Parsed j)
    with Some assms show ?thesis
      apply (cases j)
      apply (simp_all add: checkSessionExists_def Let_def existsSync_def readJson_def logger_def)
      apply ((intro exI, rule refl)+)
      done
  qed
qed

text \<open>
  C10. When the session has no usable record on disk (no file, a file that does not
  parse, or a record without a \<open>session\<close> field), every tool of the stdio server
  returns the \<^verbatim>\<open>isError\<close> result "Session file for ... does not exist or is
  invalid": the tools of \<^verbatim>\<open>mcp-server.js\<close>, the tools of \<^verbatim>\<open>mcp/tools.js\<close>
  with their error object, and the tools of the server that hands the work to these.
  Apart from the lines of the log the state is as it was: the telegram module is not
  entered (\<^verbatim>\<open>getClient\<close> is not called), so there is no call to the backend and no
  login dialog, and no client or file is created.
\<close>

theorem C10_no_record_no_telegram_call:
  assumes "noUsableRecord (map_of (files w) (sessionFilePath (sessionsDir w) session))"
  shows "(\<exists>lvl reason. serverTool cmd cfg b session w =
            (Some (IsError (noSessionText session)),
             w\<lparr>logged := logged w @
                  [(Debug, [Txt ''Executing '', Txt (commandName cmd)] @ serverArguments cmd session),
                   (Debug, [Txt ''Checking session file: '', Txt (pathText (sessionFilePath (sessionsDir w) session))]),
                   (lvl, reason)]\<rparr>))
       \<and> (\<exists>lvl reason. tool cmd cfg b session w =
            (Some (ToolError (noSessionText session)),
             w\<lparr>logged := logged w @
                  [(Debug, [Txt ''Executing '', Txt (commandName cmd), Txt ''Tool'']
                             @ toolArguments cmd session),
                   (Debug, [Txt ''Checking session file: '', Txt (pathText (sessionFilePath (sessionsDir w) session))]),
                   (lvl, reason)]\<rparr>))
       \<and> (\<exists>lvl reason. delegatingServerTool cmd cfg b session w =
            (Some (DelegatedError (noSessionText session)),
             w\<lparr>logged := logged w @
                  [(Debug, [Txt ''Executing '', Txt (commandName cmd)] @ serverArguments cmd session),
                   (Debug, [Txt ''Executing '', Txt (commandName cmd), Txt ''Tool'']
                             @ toolArguments cmd session),
                   (Debug, [Txt ''Checking session file: '', Txt (pathText (sessionFilePath (sessionsDir w) session))]),
                   (lvl, reason)]\<rparr>))
       \<and> calls (snd (serverTool cmd cfg b session w)) = calls w
       \<and> clientSessions (snd (serverTool cmd cfg b session w)) = clientSessions w
       \<and> files (snd (serverTool cmd cfg b session w)) = files w"
proof -
  have a: "\<exists>lvl reason. serverTool cmd cfg b session w =
            (Some (IsError (noSessionText session)),
             w\<lparr>logged := logged w @
                  [(Debug, [Txt ''Executing '', Txt (commandName cmd)] @ serverArguments cmd session),
                   (Debug, [Txt ''Checking session file: '', Txt (pathText (sessionFilePath (sessionsDir w) session))]),
                   (lvl, reason)]\<rparr>)"
  proof -
    let ?w1 = "logger Debug ([Txt ''Executing '', Txt (commandName cmd)] @ serverArguments cmd session) w"
    have "noUsableRecord (map_of (files ?w1) (sessionFilePath (sessionsDir ?w1) session))"
      using assms by simp
    from checkSessionExists_unusable [OF this]
    obtain lvl reason where "checkSessionExists session ?w1 =
           (False,
            ?w1\<lparr>logged := logged ?w1 @
                 [(Debug, [Txt ''Checking session file: '', Txt (pathText (sessionFilePath (sessionsDir ?w1) session))]),
                  (lvl, reason)]\<rparr>)" by blast
    then show ?thesis
      apply (simp add: serverTool_def Let_def logger_def)
      apply (intro exI, rule refl)
      done
  qed
  have b: "\<exists>lvl reason. tool cmd cfg b session w =
            (Some (ToolError (noSessionText session)),
             w\<lparr>logged := logged w @
                  [(Debug, [Txt ''Executing '', Txt (commandName cmd), Txt ''Tool'']
                             @ toolArguments cmd session),
                   (Debug, [Txt ''Checking session file: '', Txt (pathText (sessionFilePath (sessionsDir w) session))]),
                   (lvl, reason)]\<rparr>)"
  proof -
    let ?w1 = "logger Debug ([Txt ''Executing '', Txt (commandName cmd), Txt ''Tool'']
                             @ toolArguments cmd session) w"
    have "noUsableRecord (map_of (files ?w1) (sessionFilePath (sessionsDir ?w1) session))"
      using assms by simp
    from checkSessionExists_unusable [OF this]
    obtain lvl reason where "checkSessionExists session ?w1 =
           (False,
            ?w1\<lparr>logged := logged ?w1 @
                 [(Debug, [Txt ''Checking session file: '', Txt (pathText (sessionFilePath (sessionsDir ?w1) session))]),
                  (lvl, reason)]\<rparr>)" by blast
    then show ?thesis
      apply (simp add: tool_def Let_def logger_def)
      apply (intro exI, rule refl)
      done
  qed
  have b': "\<exists>lvl reason. delegatingServerTool cmd cfg b session w =
            (Some (DelegatedError (noSessionText session)),
             w\<lparr>logged := logged w @
                  [(Debug, [Txt ''Executing '', Txt (commandName cmd)] @ serverArguments cmd session),
                   (Debug, [Txt ''Executing '', Txt (commandName cmd), Txt ''Tool'']
                             @ toolArguments cmd session),
                   (Debug, [Txt ''Checking session file: '', Txt (pathText (sessionFilePath (sessionsDir w) session))]),
                   (lvl, reason)]\<rparr>)"
  proof -
    let ?w0 = "logger Debug ([Txt ''Executing '', Txt (commandName cmd)] @ serverArguments cmd session) w"
    let ?w1 = "logger Debug ([Txt ''Executing '', Txt (commandName cmd), Txt ''Tool'']
                             @ toolArguments cmd session) ?w0"
    have "noUsableRecord (map_of (files ?w1) (sessionFilePath (sessionsDir ?w1) session))"
      using assms by simp
    from checkSessionExists_unusable [OF this]
    obtain lvl reason where "checkSessionExists session ?w1 =
           (False,
            ?w1\<lparr>logged := logged ?w1 @
                 [(Debug, [Txt ''Checking session file: '', Txt (pathText (sessionFilePath (sessionsDir ?w1) session))]),
                  (lvl, reason)]\<rparr>)" by blast
    then show ?thesis
      apply (simp add: delegatingServerTool_def tool_def Let_def logger_def)
      apply (intro exI, rule refl)
      done
  qed
  from a obtain lvl reason where r: "serverTool cmd cfg b session w =
            (Some (IsError (noSessionText session)),
             w\<lparr>logged := logged w @
                  [(Debug, [Txt ''Executing '', Txt (commandName cmd)] @ serverArguments cmd session),
                   (Debug, [Txt ''Checking session file: '', Txt (pathText (sessionFilePath (sessionsDir w) session))]),
                   (lvl, reason)]\<rparr>)" by blast
  have c: "calls (snd (serverTool cmd cfg b session w)) = calls w"
    and d: "clientSessions (snd (serverTool cmd cfg b session w)) = clientSessions w"
    and e: "files (snd (serverTool cmd cfg b session w)) = files w"
    by (simp_all add: r)
  from a b b' c d e show ?thesis by blast
qed

theorem C10_no_record_no_telegram_call_witness:
  "noUsableRecord (map_of (files otherSessionWorld) (sessionFilePath (sessionsDir otherSessionWorld) ''+1000''))
   \<and> fst (serverTool (GetDialogs 100) realConfig quietBackend ''+1000'' otherSessionWorld)
       = Some (IsError (noSessionText ''+1000''))
   \<and> fst (tool (GetMessages ''@chat'' 100) realConfig quietBackend ''+1000'' otherSessionWorld)
       = Some (ToolError (noSessionText ''+1000''))
   \<and> calls (snd (serverTool (GetDialogs 100) realConfig quietBackend ''+1000'' otherSessionWorld)) = []
   \<and> noUsableRecord (map_of (files scannedWorld) (sessionFilePath (sessionsDir scannedWorld) ''+2000''))
   \<and> fst (serverTool (SendMessage ''@chat'' ''hello'') realConfig quietBackend ''+2000'' scannedWorld)
       = Some (IsError (noSessionText ''+2000''))
   \<and> noUsableRecord (map_of (files scannedWorld) (sessionFilePath (sessionsDir scannedWorld) ''+3000''))
   \<and> fst (serverTool (ExecuteMethod ''help.GetConfig'' (JObj [])) realConfig quietBackend ''+3000''
             scannedWorld)
       = Some (IsError (noSessionText ''+3000''))"
proof -
  have a: "noUsableRecord (map_of (files otherSessionWorld) (sessionFilePath (sessionsDir otherSessionWorld) ''+1000''))"
    and b: "noUsableRecord (map_of (files scannedWorld) (sessionFilePath (sessionsDir scannedWorld) ''+2000''))"
    and c: "noUsableRecord (map_of (files scannedWorld) (sessionFilePath (sessionsDir scannedWorld) ''+3000''))"
    and d: "calls otherSessionWorld = []"
    by (simp_all add: otherSessionWorld_def scannedWorld_def savedRecord_def sessionsPath_def
        path_unfold)
  show ?thesis
    using C10_no_record_no_telegram_call [OF a, of "GetDialogs 100" realConfig quietBackend]
      C10_no_record_no_telegram_call [OF a, of "GetMessages ''@chat'' 100" realConfig quietBackend]
      C10_no_record_no_telegram_call [OF b, of "SendMessage ''@chat'' ''hello''" realConfig quietBackend]
      C10_no_record_no_telegram_call [OF c, of "ExecuteMethod ''help.GetConfig'' (JObj [])"
        realConfig quietBackend]
      a b c d
    by auto
qed

end
